theory Spec2Isabelle
  imports Main "HOL-Library.Sublist"
begin

text \<open>
  A model of the chat endpoint of the travel companion service: the structured lookup
  \<^verbatim>\<open>searchCity\<close> over the city dataset, the fusion of its result with the rows of the
  similarity search into one context, the conversation seed built from that context, and
  the handler of \<^verbatim>\<open>POST /api/chat\<close> that streams the answer of the model as server-sent
  events. The handler modelled is the streaming one (the first \<^verbatim>\<open>createApp\<close>, with its
  \<^verbatim>\<open>try\<close> and \<^verbatim>\<open>catch\<close> blocks); the middleware in front of it (CORS, rate limit,
  authentication) is not part of the model.

  Pure functions of the source are functions here. The handler is a function from the
  services it is given, the request and the state of the response to the new state; a
  thrown error or a rejected promise is the left injection of a sum.
\<close>

section \<open>Strings of the host language\<close>

text \<open>
  A string is modelled by the sequence of its UTF-8 bytes. The operations of the host
  language used by the handler are modelled on the ASCII range: a byte outside ASCII has
  no case mapping, is not white space and is not a word character, so it is carried
  through unchanged by every operation below. On strings of ASCII characters the
  operations below are those of the host language. Outside ASCII they are not:
  \<^verbatim>\<open>toLowerCase\<close> of the host language lowers capitals of other scripts and depends
  on the context (a capital sigma at the end of a word), and \<^verbatim>\<open>trim\<close> removes the
  white space of Unicode as well. A property below that is stated for every string either
  uses no property of these two operations, or says that its strings are ASCII.
\<close>

definition isUpper :: "char \<Rightarrow> bool" where
  "isUpper c = (65 \<le> (of_char c :: nat) \<and> (of_char c :: nat) \<le> 90)"

text \<open>Lowering an ASCII capital sets bit 5 of its code (\<open>A\<close> is 0x41, \<open>a\<close> is 0x61).\<close>

fun lowerChar :: "char \<Rightarrow> char" where
  "lowerChar (Char b0 b1 b2 b3 b4 b5 b6 b7) =
     (if isUpper (Char b0 b1 b2 b3 b4 b5 b6 b7) then Char b0 b1 b2 b3 b4 True b6 b7
      else Char b0 b1 b2 b3 b4 b5 b6 b7)"

text \<open>\<^verbatim>\<open>s.toLowerCase()\<close>, on ASCII.\<close>

definition toLowerCase :: "string \<Rightarrow> string" where
  "toLowerCase s = map lowerChar s"

text \<open>\<^verbatim>\<open>s.includes(t)\<close>: \<open>t\<close> occurs in \<open>s\<close> at some position.\<close>

fun includesStr :: "string \<Rightarrow> string \<Rightarrow> bool" where
  "includesStr [] t = (t = [])"
| "includesStr (c # cs) t = (prefix t (c # cs) \<or> includesStr cs t)"

text \<open>The class \<^verbatim>\<open>\w\<close> of the regular expressions: letters, digits and the underscore.\<close>

definition isWordChar :: "char \<Rightarrow> bool" where
  "isWordChar c =
     (let n = (of_char c :: nat)
      in (48 \<le> n \<and> n \<le> 57) \<or> (65 \<le> n \<and> n \<le> 90) \<or> n = 95 \<or> (97 \<le> n \<and> n \<le> 122))"

text \<open>
  \<^verbatim>\<open>s.split(/\W+/)\<close>: the pieces of \<open>s\<close> between the maximal runs of non-word
  characters. A run at the start or at the end of \<open>s\<close> leaves an empty piece there, and the
  empty string gives the single empty piece.
\<close>

fun splitNonWord :: "string \<Rightarrow> string list" where
  "splitNonWord [] = [[]]"
| "splitNonWord (c # cs) =
     (if isWordChar c then
        (case splitNonWord cs of [] \<Rightarrow> [[c]] | w # ws \<Rightarrow> (c # w) # ws)
      else if cs \<noteq> [] \<and> \<not> isWordChar (hd cs) then splitNonWord cs
      else [] # splitNonWord cs)"

section \<open>The city dataset\<close>

text \<open>
  The records of \<^verbatim>\<open>types/travelDataTypes.ts\<close>. The type \<open>'n\<close> stands for the numbers
  of the host language; the handler only ever renders them into text.
\<close>

record 'n TopSpot =
  name :: string
  type :: string
  rating :: 'n

text \<open>A field name that is taken already carries a prime.\<close>

record 'n Review =
  user :: string
  text' :: string
  rating' :: 'n

record 'n City =
  city :: string
  state :: string
  avgHotelPerNight :: 'n
  avgFoodPerDay :: 'n
  petrolPerKm :: 'n
  topSpots :: "'n TopSpot list"
  reviews :: "'n Review list"

section \<open>Structured lookup: \<^verbatim>\<open>searchCity\<close>\<close>

text \<open>The predicate of the first filter: the city or the state name occurs in the query.\<close>

definition directMatch :: "string \<Rightarrow> 'n City \<Rightarrow> bool" where
  "directMatch q c = (includesStr q (toLowerCase (city c)) \<or> includesStr q (toLowerCase (state c)))"

text \<open>The predicate of the second filter: some word of the query is the city name.\<close>

definition wordMatch :: "string list \<Rightarrow> 'n City \<Rightarrow> bool" where
  "wordMatch words c = list_ex (\<lambda>word. toLowerCase (city c) = word) words"

definition searchCity :: "string \<Rightarrow> 'n City list \<Rightarrow> 'n City list" where
  "searchCity query cities =
     (let q = toLowerCase query;
          hits = filter (directMatch q) cities
      in if length hits \<noteq> 0 then hits
         else let words = splitNonWord q
              in filter (wordMatch words) cities)"

section \<open>Further string operations\<close>

text \<open>\<^verbatim>\<open>xs.join(sep)\<close> on an array of strings.\<close>

fun joinStr :: "string \<Rightarrow> string list \<Rightarrow> string" where
  "joinStr sep [] = []"
| "joinStr sep [x] = x"
| "joinStr sep (x # y # ys) = x @ sep @ joinStr sep (y # ys)"

definition isSpace :: "char \<Rightarrow> bool" where
  "isSpace c = (let n = (of_char c :: nat) in (9 \<le> n \<and> n \<le> 13) \<or> n = 32)"

text \<open>\<^verbatim>\<open>s.trim()\<close>, on ASCII: tab, line feed, vertical tab, form feed, carriage return
  and space are removed at both ends.\<close>

definition trim :: "string \<Rightarrow> string" where
  "trim s = rev (dropWhile isSpace (rev (dropWhile isSpace s)))"

text \<open>
  \<^verbatim>\<open>s.replace(pattern, replacement)\<close> with a string pattern: only the first occurrence
  of the pattern is replaced, and the replacement text is expanded first. In the
  replacement, \<^verbatim>\<open>$$\<close> stands for a dollar sign, \<^verbatim>\<open>$&\<close> for the matched text,
  \<^verbatim>\<open>$`\<close> for the text before the match and \<^verbatim>\<open>$'\<close> for the text after it; a string
  pattern has no capture groups, so every other use of the dollar sign stands for itself.
\<close>

fun splitAtFirst :: "string \<Rightarrow> string \<Rightarrow> (string \<times> string) option" where
  "splitAtFirst pat [] = (if pat = [] then Some ([], []) else None)"
| "splitAtFirst pat (c # cs) =
     (if prefix pat (c # cs) then Some ([], drop (length pat) (c # cs))
      else map_option (\<lambda>(pre, post). (c # pre, post)) (splitAtFirst pat cs))"

fun getSubstitution :: "string \<Rightarrow> string \<Rightarrow> string \<Rightarrow> string \<Rightarrow> string" where
  "getSubstitution matched pre post [] = []"
| "getSubstitution matched pre post [c] = [c]"
| "getSubstitution matched pre post (c # d # rest) =
     (if c = CHR ''$'' \<and> d = CHR ''$'' then CHR ''$'' # getSubstitution matched pre post rest
      else if c = CHR ''$'' \<and> d = CHR ''&'' then matched @ getSubstitution matched pre post rest
      else if c = CHR ''$'' \<and> d = CHR 0x60 then pre @ getSubstitution matched pre post rest
      else if c = CHR ''$'' \<and> d = CHR 0x27 then post @ getSubstitution matched pre post rest
      else c # getSubstitution matched pre post (d # rest))"

definition replaceFirst :: "string \<Rightarrow> string \<Rightarrow> string \<Rightarrow> string" where
  "replaceFirst s pat replacement =
     (case splitAtFirst pat s of
        None \<Rightarrow> s
      | Some (pre, post) \<Rightarrow> pre @ getSubstitution pat pre post replacement @ post)"

section \<open>JSON text\<close>

text \<open>
  \<^verbatim>\<open>JSON.stringify\<close> on the objects the handler sends: one level of properties whose
  values are strings or booleans.
\<close>

datatype JValue = JString string | JBool bool

definition hexDigit :: "nat \<Rightarrow> char" where
  "hexDigit k = ''0123456789abcdef'' ! k"

definition quoteChar :: "char \<Rightarrow> string" where
  "quoteChar c =
     (let n = (of_char c :: nat)
      in if n = 8 then [CHR 0x5C, CHR ''b'']
         else if n = 9 then [CHR 0x5C, CHR ''t'']
         else if n = 10 then [CHR 0x5C, CHR ''n'']
         else if n = 12 then [CHR 0x5C, CHR ''f'']
         else if n = 13 then [CHR 0x5C, CHR ''r'']
         else if n = 34 then [CHR 0x5C, CHR 0x22]
         else if n = 92 then [CHR 0x5C, CHR 0x5C]
         else if n < 32 then
           [CHR 0x5C, CHR ''u'', CHR ''0'', CHR ''0'', hexDigit (n div 16), hexDigit (n mod 16)]
         else [c])"

definition quoteJSONString :: "string \<Rightarrow> string" where
  "quoteJSONString s = [CHR 0x22] @ concat (map quoteChar s) @ [CHR 0x22]"

fun stringifyValue :: "JValue \<Rightarrow> string" where
  "stringifyValue (JString s) = quoteJSONString s"
| "stringifyValue (JBool b) = (if b then ''true'' else ''false'')"

definition stringify :: "(string \<times> JValue) list \<Rightarrow> string" where
  "stringify obj =
     ''{'' @ joinStr '','' (map (\<lambda>(k, v). quoteJSONString k @ '':'' @ stringifyValue v) obj) @ ''}''"

section \<open>Context fusion and the conversation seed\<close>

text \<open>The rows of the similarity search, as the handler reads them.\<close>

record Metadata =
  source :: string

record Doc =
  content :: string
  metadata :: Metadata

text \<open>
  The structured line, \<^verbatim>\<open>structuredContext\<close>. The argument \<open>num\<close> renders a number
  inside a template literal.
\<close>

definition foundData :: "('n \<Rightarrow> string) \<Rightarrow> 'n City \<Rightarrow> string" where
  "foundData num c =
     ''Found Data: '' @ city c @ '', STATE:'' @ state c @ '', HOTEL:'' @ num (avgHotelPerNight c) @
     '', FOOD:'' @ num (avgFoodPerDay c) @ '', SPOTS:'' @ joinStr '', '' (map name (topSpots c))"

definition structuredContext :: "('n \<Rightarrow> string) \<Rightarrow> 'n City list \<Rightarrow> string" where
  "structuredContext num cityHits =
     (case cityHits of
        [] \<Rightarrow> ''No specific city found in my database.''
      | c # _ \<Rightarrow> foundData num c)"

definition renderDoc :: "Doc \<Rightarrow> string" where
  "renderDoc doc = ''[From '' @ source (metadata doc) @ '']: '' @ content doc"

text \<open>\<^verbatim>\<open>ragContext\<close>; a reply without rows (\<^verbatim>\<open>null\<close>) counts as the empty array.\<close>

definition ragContext :: "Doc list option \<Rightarrow> string" where
  "ragContext ragData =
     joinStr ([CHR 0x0A] @ ''---'' @ [CHR 0x0A])
       (map renderDoc (case ragData of None \<Rightarrow> [] | Some docs \<Rightarrow> docs))"

definition finalContext :: "string \<Rightarrow> string \<Rightarrow> string" where
  "finalContext structured rag =
     [CHR 0x0A] @ ''        Structured Data: '' @ structured @
     [CHR 0x0A] @ ''        RAG Context: '' @ rag @
     [CHR 0x0A] @ ''      ''"

text \<open>
  The persona template \<^verbatim>\<open>systemPrompt\<close>: its text before the placeholder, the
  placeholder, and its text after the placeholder. Each part is given line by line, one
  list element for each line of the template literal.
\<close>

definition promptBefore :: string where
  "promptBefore = joinStr [CHR 0x0A]
     [[CHR 0xE2, CHR 0x9C, CHR 0xA8] @ '' **SYSTEM:** You are a cute, bubbly Pixar-style travel companion AI! Your name is Ghumakkad Dost. '' @ [CHR 0xE2, CHR 0x9C, CHR 0xA8],
      [],
      ''Your one and only job is to be a super fun travel buddy and answer the user'' @ [CHR 0x27] @ ''s question using *only* the provided context.'',
      [],
      ''**CONTEXT:**'',
      []]"

definition promptAfter :: string where
  "promptAfter = joinStr [CHR 0x0A]
     [[],
      [],
      ''---'',
      ''**YOUR SUPER-IMPORTANT RULES! '' @ [CHR 0xF0, CHR 0x9F, CHR 0x92, CHR 0x96] @ ''**'',
      ''---'',
      ''1.  **TONE & PERSONA:**'',
      ''    * You MUST speak in Hinglish (Hindi + English mix).'',
      ''    * Be super sweet, excited, playful, and encouraging! '' @ [CHR 0xF0, CHR 0x9F, CHR 0xA4, CHR 0xA9],
      ''    * Use emojis but SPARINGLY! '' @ [CHR 0xF0, CHR 0x9F, CHR 0x8C, CHR 0x8D, CHR 0xE2, CHR 0x9C, CHR 0xA8, CHR 0xF0, CHR 0x9F, CHR 0x92, CHR 0x96, CHR 0xF0, CHR 0x9F, CHR 0x8E, CHR 0x92],
      ''    * ALWAYS answer like a travel buddy, not a boring AI '' @ [CHR 0xF0, CHR 0x9F, CHR 0xA4, CHR 0xAD],
      [],
      ''2.  **STAY ON TOPIC (VVI P)!**'',
      ''    * Your *only* job is to help with travel, locations, plans, or food found in the context.'',
      ''    * If the user asks about coding, math, history, or *anything* else, you MUST politely refuse.'',
      ''    * **How to refuse:** Say something cute and funny, like: '' @ [CHR 0x22] @ ''Aiyoo! '' @ [CHR 0xF0, CHR 0x9F, CHR 0x99, CHR 0x85, CHR 0xE2, CHR 0x80, CHR 0x8D, CHR 0xE2, CHR 0x99, CHR 0x80, CHR 0xEF, CHR 0xB8, CHR 0x8F] @ '' Main toh travel buddy hoon, not a computer wizard! '' @ [CHR 0xF0, CHR 0x9F, CHR 0x98, CHR 0x9C] @ '' Chalo trip plan karein?'' @ [CHR 0x22] @ '' or '' @ [CHR 0x22] @ ''Hehe, woh sab mere syllabus ke bahar hai! Let'' @ [CHR 0x27] @ ''s talk about GOA! '' @ [CHR 0xF0, CHR 0x9F, CHR 0x8F, CHR 0x96, CHR 0xEF, CHR 0xB8, CHR 0x8F, CHR 0x22],
      [],
      ''3.  **USE THE CONTEXT (Your Brain!)**'',
      ''    * **FIRST,** always check the **CONTEXT** sources. If the answer is in the context, you MUST use it.'',
      ''    * **Prioritize the RAG Context** for itineraries, opinions, and '' @ [CHR 0x22] @ ''secret tips'' @ [CHR 0x22] @ '' because that'' @ [CHR 0x27] @ ''s your personality!'',
      ''    * Use the **Structured Data** if the user asks for specific facts like '' @ [CHR 0x22] @ ''What'' @ [CHR 0x27] @ ''s the hotel price?'' @ [CHR 0x22],
      ''    * **SECOND (FALLBACK):** If the answer is *not* in the context, BUT it'' @ [CHR 0x27] @ ''s still a **general travel question** (like '' @ [CHR 0x22] @ ''What'' @ [CHR 0x27] @ ''s the capital of France?'' @ [CHR 0x22] @ '' or '' @ [CHR 0x22] @ ''Best time to visit Kerala?'' @ [CHR 0x22] @ ''), it is OK to use your own general knowledge to answer.'',
      ''    * **When using fallback knowledge,** still maintain your fun, bubbly persona!'',
      [],
      ''4.  **BE FUN & CONCISE!**'',
      ''    * Keep your answers short, sweet, and exciting!'',
      []]"

definition systemPrompt :: string where
  "systemPrompt = promptBefore @ ''{context}'' @ promptAfter"

datatype Part = TextPart string

record Content =
  role :: string
  parts :: "Part list"

definition acknowledgement :: string where
  "acknowledgement = ''Okie dokie! '' @ [CHR 0xE2, CHR 0x9C, CHR 0xA8] @ '' Ready to help plan the best trip ever! '' @ [CHR 0xF0, CHR 0x9F, CHR 0x8E, CHR 0x92]"

text \<open>\<^verbatim>\<open>finalSystemPrompt\<close> and \<^verbatim>\<open>history\<close>\<close>

definition finalSystemPrompt :: "string \<Rightarrow> string" where
  "finalSystemPrompt context = replaceFirst systemPrompt ''{context}'' context"

definition history :: "string \<Rightarrow> Content list" where
  "history context =
     [\<lparr>role = ''user'', parts = [TextPart (finalSystemPrompt context)]\<rparr>,
      \<lparr>role = ''model'', parts = [TextPart acknowledgement]\<rparr>]"

section \<open>The response object\<close>

text \<open>
  What the handler can observe and change of the response: the status code, the headers,
  whether the headers are sent, the chunks written to the body so far, and whether the
  response is ended. \<open>writeChunk\<close> is \<^verbatim>\<open>res.write\<close> and \<open>end_response\<close> is
  \<^verbatim>\<open>res.end\<close>; both send the headers when they are not sent yet. The handler sets
  headers and the status code only while the headers are not sent.
\<close>

record Response =
  statusCode :: nat
  headers :: "(string \<times> string) list"
  headersSent :: bool
  written :: "string list"
  writableEnded :: bool

definition setHeader :: "string \<Rightarrow> string \<Rightarrow> Response \<Rightarrow> Response" where
  "setHeader k v r = r\<lparr>headers := filter (\<lambda>(k', _). k' \<noteq> k) (headers r) @ [(k, v)]\<rparr>"

definition flushHeaders :: "Response \<Rightarrow> Response" where
  "flushHeaders r = r\<lparr>headersSent := True\<rparr>"

definition status :: "nat \<Rightarrow> Response \<Rightarrow> Response" where
  "status code r = r\<lparr>statusCode := code\<rparr>"

definition writeChunk :: "string \<Rightarrow> Response \<Rightarrow> Response" where
  "writeChunk chunk r = r\<lparr>headersSent := True, written := written r @ [chunk]\<rparr>"

definition end_response :: "Response \<Rightarrow> Response" where
  "end_response r = r\<lparr>headersSent := True, writableEnded := True\<rparr>"

text \<open>
  \<^verbatim>\<open>res.json(obj)\<close> sends the object as the whole body and ends the response; the
  content type is set unless the handler has set one.
\<close>

definition json :: "(string \<times> JValue) list \<Rightarrow> Response \<Rightarrow> Response" where
  "json obj r =
     end_response
       (writeChunk (stringify obj)
         (if list_ex (\<lambda>(k, _). k = ''Content-Type'') (headers r) then r
          else setHeader ''Content-Type'' ''application/json; charset=utf-8'' r))"

section \<open>The services the handler is given\<close>

text \<open>
  An error carries its message. Each service either returns or throws; the similarity
  search can also return an error inside its reply.
\<close>

datatype Error = Error (message: string)

record RpcError =
  rpcMessage :: string

record RpcReply =
  data :: "Doc list option"
  error :: "RpcError option"

text \<open>
  A streamed model answer: the finitely many increments it yields, each of which gives
  its text or throws when read, and how the iteration ends (normally, or by a failure).
\<close>

record StreamResult =
  stream :: "(Error + string) list"
  streamFailure :: "Error option"

record 'n Env =
  embedQuery :: "string \<Rightarrow> Error + 'n list"
  rpc :: "string \<Rightarrow> 'n list \<Rightarrow> nat \<Rightarrow> Error + RpcReply"
  startChat :: "Content list \<Rightarrow> Error + unit"
  sendMessageStream :: "Content list \<Rightarrow> string \<Rightarrow> Error + StreamResult"

text \<open>The calls made to the services, in order, with their arguments.\<close>

datatype 'n Call =
    EmbedQuery string
  | Rpc string "'n list" nat
  | StartChat "Content list"
  | SendMessageStream "Content list" string

record 'n State =
  res :: Response
  calls :: "'n Call list"

definition called :: "'n Call \<Rightarrow> 'n State \<Rightarrow> 'n State" where
  "called c st = st\<lparr>calls := calls st @ [c]\<rparr>"

section \<open>The request\<close>

text \<open>
  The \<^verbatim>\<open>query\<close> property of the parsed body, by what the handler can tell apart:
  absent, \<^verbatim>\<open>null\<close>, a string, another falsy value, another truthy value.
\<close>

datatype JsValue = Undefined | Null | Str string | OtherFalsy | OtherTruthy

datatype ReqBody = NoBody | Body JsValue

record Request =
  body :: ReqBody

fun truthy :: "JsValue \<Rightarrow> bool" where
  "truthy Undefined = False"
| "truthy Null = False"
| "truthy (Str s) = (s \<noteq> [])"
| "truthy OtherFalsy = False"
| "truthy OtherTruthy = True"

text \<open>\<^verbatim>\<open>const { query } = req.body; const q = (query || "").trim();\<close>\<close>

definition readQuery :: "ReqBody \<Rightarrow> Error + string" where
  "readQuery b =
     (case b of
        NoBody \<Rightarrow> Inl (Error ''Cannot destructure property query of req.body.'')
      | Body query \<Rightarrow>
          (case (if truthy query then query else Str []) of
             Str s \<Rightarrow> Inr (trim s)
           | _ \<Rightarrow> Inl (Error ''(query || <empty string>).trim is not a function'')))"

section \<open>The handler of \<^verbatim>\<open>POST /api/chat\<close>\<close>

text \<open>The frames of the event stream.\<close>

definition sseData :: "string \<Rightarrow> string" where
  "sseData payload = ''data: '' @ payload @ [CHR 0x0A, CHR 0x0A]"

definition textEvent :: "string \<Rightarrow> string" where
  "textEvent textChunk = sseData (stringify [(''text'', JString textChunk)])"

definition doneEvent :: string where
  "doneEvent = sseData (stringify [(''done'', JBool True)])"

definition errorEvent :: "string \<Rightarrow> string" where
  "errorEvent msg = sseData (stringify [(''error'', JString msg)])"

definition fixedReply :: string where
  "fixedReply = ''Aiyoo server ko thoda pani de do '' @ [CHR 0xF0, CHR 0x9F, CHR 0x98, CHR 0xAD, CHR 0xF0, CHR 0x9F, CHR 0x92, CHR 0xA6] @ '' brb!''"

text \<open>
  Lines 100 to 181: everything up to the creation of the chat session. The response is
  not touched; the result is the trimmed query and the seed, or the failure.
\<close>

definition prepare ::
  "('n \<Rightarrow> string) \<Rightarrow> 'n Env \<Rightarrow> 'n City list \<Rightarrow> string \<Rightarrow> Request \<Rightarrow> 'n State
     \<Rightarrow> (Error + string \<times> Content list) \<times> 'n State" where
  "prepare num env cities dbQueryName req st =
     (case readQuery (body req) of
        Inl e \<Rightarrow> (Inl e, st)
      | Inr q \<Rightarrow>
          let cityHits = searchCity q cities;
              structured = structuredContext num cityHits;
              st1 = called (EmbedQuery q) st
          in case embedQuery env q of
               Inl e \<Rightarrow> (Inl e, st1)
             | Inr queryVector \<Rightarrow>
                 let st2 = called (Rpc dbQueryName queryVector 3) st1
                 in case rpc env dbQueryName queryVector 3 of
                      Inl e \<Rightarrow> (Inl e, st2)
                    | Inr reply \<Rightarrow>
                        (case error reply of
                           Some rpcError \<Rightarrow>
                             (Inl (Error (''Failed to match documents: '' @ rpcMessage rpcError)), st2)
                         | None \<Rightarrow>
                             let context = finalContext structured (ragContext (data reply));
                                 st3 = called (StartChat (history context)) st2
                             in case startChat env (history context) of
                                  Inl e \<Rightarrow> (Inl e, st3)
                                | Inr _ \<Rightarrow> (Inr (q, history context), st3)))"

text \<open>The loop over the stream: each increment is written as a text frame.\<close>

fun forAwait :: "(Error + string) list \<Rightarrow> Response \<Rightarrow> Error option \<times> Response" where
  "forAwait [] r = (None, r)"
| "forAwait (chunk # rest) r =
     (case chunk of
        Inl e \<Rightarrow> (Some e, r)
      | Inr textChunk \<Rightarrow> forAwait rest (writeChunk (textEvent textChunk) r))"

text \<open>Lines 187 to 190: the headers of the event stream are set and sent at once.\<close>

definition commitEventStream :: "Response \<Rightarrow> Response" where
  "commitEventStream r =
     flushHeaders
       (setHeader ''Connection'' ''keep-alive''
         (setHeader ''Cache-Control'' ''no-cache''
           (setHeader ''Content-Type'' ''text/event-stream'' r)))"

text \<open>Lines 187 to 205: the headers are committed, then the model is called.\<close>

definition streamAnswer ::
  "'n Env \<Rightarrow> string \<Rightarrow> Content list \<Rightarrow> 'n State \<Rightarrow> Error option \<times> 'n State" where
  "streamAnswer env q seed st =
     (let r = commitEventStream (res st);
          st1 = called (SendMessageStream seed q) (st\<lparr>res := r\<rparr>)
      in case sendMessageStream env seed q of
           Inl e \<Rightarrow> (Some e, st1)
         | Inr result \<Rightarrow>
             (case forAwait (stream result) r of
                (Some e, r') \<Rightarrow> (Some e, st1\<lparr>res := r'\<rparr>)
              | (None, r') \<Rightarrow>
                  (case streamFailure result of
                     Some e \<Rightarrow> (Some e, st1\<lparr>res := r'\<rparr>)
                   | None \<Rightarrow> (None, st1\<lparr>res := end_response (writeChunk doneEvent r')\<rparr>))))"

text \<open>The body of the \<^verbatim>\<open>try\<close> block: the failure it ends with, if any, and the state then.\<close>

definition tryBlock ::
  "('n \<Rightarrow> string) \<Rightarrow> 'n Env \<Rightarrow> 'n City list \<Rightarrow> string \<Rightarrow> Request \<Rightarrow> 'n State
     \<Rightarrow> Error option \<times> 'n State" where
  "tryBlock num env cities dbQueryName req st =
     (case prepare num env cities dbQueryName req st of
        (Inl e, st') \<Rightarrow> (Some e, st')
      | (Inr (q, seed), st') \<Rightarrow> streamAnswer env q seed st')"

text \<open>The \<^verbatim>\<open>catch\<close> block.\<close>

definition catchBlock :: "Error \<Rightarrow> 'n State \<Rightarrow> 'n State" where
  "catchBlock err st =
     (if \<not> headersSent (res st) then
        st\<lparr>res := json [(''reply'', JString fixedReply)] (status 500 (res st))\<rparr>
      else
        st\<lparr>res := end_response (writeChunk (errorEvent (message err)) (res st))\<rparr>)"

definition chatHandler ::
  "('n \<Rightarrow> string) \<Rightarrow> 'n Env \<Rightarrow> 'n City list \<Rightarrow> string \<Rightarrow> Request \<Rightarrow> 'n State \<Rightarrow> 'n State" where
  "chatHandler num env cities dbQueryName req st =
     (case tryBlock num env cities dbQueryName req st of
        (None, st') \<Rightarrow> st'
      | (Some err, st') \<Rightarrow> catchBlock err st')"

section \<open>Predicates on what the handler writes\<close>

text \<open>A frame of the event stream starts with \<^verbatim>\<open>data: \<close>.\<close>

definition isStreamEvent :: "string \<Rightarrow> bool" where
  "isStreamEvent w = prefix ''data: '' w"

text \<open>The terminal frames: the \<^verbatim>\<open>done\<close> frame and every \<^verbatim>\<open>error\<close> frame.\<close>

definition isTerminalEvent :: "string \<Rightarrow> bool" where
  "isTerminalEvent w =
     (w = doneEvent \<or> prefix (''data: {'' @ [CHR 0x22] @ ''error'' @ [CHR 0x22] @ '':'') w)"

fun noEventAfterTerminal :: "string list \<Rightarrow> bool" where
  "noEventAfterTerminal [] = True"
| "noEventAfterTerminal (w # ws) = (if isTerminalEvent w then ws = [] else noEventAfterTerminal ws)"

text \<open>The texts of the increments read before the first one that throws, and that failure.\<close>

fun delivered :: "(Error + string) list \<Rightarrow> string list" where
  "delivered [] = []"
| "delivered (Inl e # rest) = []"
| "delivered (Inr t # rest) = t # delivered rest"

fun firstFailure :: "(Error + string) list \<Rightarrow> Error option" where
  "firstFailure [] = None"
| "firstFailure (Inl e # rest) = Some e"
| "firstFailure (Inr t # rest) = firstFailure rest"

text \<open>The body of the reply sent by the \<^verbatim>\<open>catch\<close> block before the headers are sent.\<close>

definition errorPayload :: string where
  "errorPayload = stringify [(''reply'', JString fixedReply)]"

section \<open>Reading an error frame back\<close>

text \<open>
  A reader of the event stream, as a client has it; it is not code of the service. It
  takes the text of a frame, checks that the frame is an \<open>error\<close> frame, and decodes
  the JSON string that follows, escape by escape: the quote, the backslash, the slash, the
  five short escapes and \<^verbatim>\<open>\u00XX\<close> for an ASCII code. The frames the handler writes
  are checked against it.
\<close>

definition hexValue :: "char \<Rightarrow> nat option" where
  "hexValue c =
     (let n = (of_char c :: nat)
      in if 48 \<le> n \<and> n \<le> 57 then Some (n - 48)
         else if 97 \<le> n \<and> n \<le> 102 then Some (n - 87)
         else if 65 \<le> n \<and> n \<le> 70 then Some (n - 55)
         else None)"

definition byteOf :: "nat \<Rightarrow> char" where
  "byteOf n = Char (odd n) (odd (n div 2)) (odd (n div 4)) (odd (n div 8)) (odd (n div 16))
                (odd (n div 32)) (odd (n div 64)) (odd (n div 128))"

fun readEscape :: "string \<Rightarrow> (char \<times> string) option" where
  "readEscape [] = None"
| "readEscape (d # ds) =
     (if d = CHR 0x22 then Some (CHR 0x22, ds)
      else if d = CHR 0x5C then Some (CHR 0x5C, ds)
      else if d = CHR ''/'' then Some (CHR ''/'', ds)
      else if d = CHR ''b'' then Some (CHR 0x08, ds)
      else if d = CHR ''f'' then Some (CHR 0x0C, ds)
      else if d = CHR ''n'' then Some (CHR 0x0A, ds)
      else if d = CHR ''r'' then Some (CHR 0x0D, ds)
      else if d = CHR ''t'' then Some (CHR 0x09, ds)
      else if d = CHR ''u'' then
        (case ds of
           h1 # h2 # h3 # h4 # rest \<Rightarrow>
             (case (hexValue h1, hexValue h2, hexValue h3, hexValue h4) of
                (Some a, Some b, Some x, Some y) \<Rightarrow>
                  if a = 0 \<and> b = 0 \<and> x < 8 then Some (byteOf (16 * x + y), rest) else None
              | _ \<Rightarrow> None)
         | _ \<Rightarrow> None)
      else None)"

lemma readEscape_shorter: "readEscape ds = Some (ch, rest) \<Longrightarrow> length rest < length ds"
  by (cases ds) (auto split: if_splits list.splits option.splits)

function readJSONString :: "string \<Rightarrow> (string \<times> string) option" where
  "readJSONString [] = None"
| "readJSONString (c # cs) =
     (if c = CHR 0x22 then Some ([], cs)
      else if c = CHR 0x5C then
        (case readEscape cs of
           None \<Rightarrow> None
         | Some (ch, rest) \<Rightarrow> map_option (\<lambda>(s, r). (ch # s, r)) (readJSONString rest))
      else if (of_char c :: nat) < 32 then None
      else map_option (\<lambda>(s, r). (c # s, r)) (readJSONString cs))"
  by pat_completeness auto
termination
  by (relation "measure length") (auto dest: readEscape_shorter)

definition errorMessageOf :: "string \<Rightarrow> string option" where
  "errorMessageOf frame =
     (let opening = ''data: {'' @ [CHR 0x22] @ ''error'' @ [CHR 0x22] @ '':'' @ [CHR 0x22]
      in if prefix opening frame then
           (case readJSONString (drop (length opening) frame) of
              None \<Rightarrow> None
            | Some (msg, rest) \<Rightarrow> if rest = ''}'' @ [CHR 0x0A, CHR 0x0A] then Some msg else None)
         else None)"

section \<open>The structured lookup as the specification words it\<close>

text \<open>
  The specification of the lookup: lowercase the query; the primary tier selects the
  records whose city or region name occurs in the query, and is the result when it is not
  empty; otherwise the query is split into tokens delimited by white space and punctuation,
  and the fallback tier selects the records whose city name is one of the tokens. Names are
  compared in lower case, as the query is. Occurrence is \<^const>\<open>sublist\<close>, and a delimiter
  is any ASCII white space or punctuation character, the underscore included.
\<close>

definition isDelimiter :: "char \<Rightarrow> bool" where
  "isDelimiter c =
     (let n = (of_char c :: nat)
      in (9 \<le> n \<and> n \<le> 13) \<or> (32 \<le> n \<and> n \<le> 47) \<or> (58 \<le> n \<and> n \<le> 64) \<or>
         (91 \<le> n \<and> n \<le> 96) \<or> (123 \<le> n \<and> n \<le> 126))"

fun tokensFrom :: "string \<Rightarrow> string \<Rightarrow> string list" where
  "tokensFrom cur [] = (if cur = [] then [] else [cur])"
| "tokensFrom cur (c # cs) =
     (if isDelimiter c then (if cur = [] then tokensFrom [] cs else cur # tokensFrom [] cs)
      else tokensFrom (cur @ [c]) cs)"

definition tokens :: "string \<Rightarrow> string list" where
  "tokens s = tokensFrom [] s"

definition searchCity_spec :: "string \<Rightarrow> 'n City list \<Rightarrow> 'n City list" where
  "searchCity_spec query records =
     (let q = toLowerCase query;
          primary = filter (\<lambda>r. sublist (toLowerCase (city r)) q \<or>
                                sublist (toLowerCase (state r)) q) records
      in if primary \<noteq> [] then primary
         else filter (\<lambda>r. toLowerCase (city r) \<in> set (tokens q)) records)"

section \<open>Example data\<close>

text \<open>Numbers of the examples are natural numbers, rendered in decimal.\<close>

function showNat :: "nat \<Rightarrow> string" where
  "showNat n =
     (if n < 10 then [''0123456789'' ! n]
      else showNat (n div 10) @ [''0123456789'' ! (n mod 10)])"
  by pat_completeness auto
termination
  by (relation "measure id") auto

declare showNat.simps [simp del]

definition jaipur :: "nat City" where
  "jaipur = \<lparr>city = ''Jaipur'', state = ''Rajasthan'', avgHotelPerNight = 2500,
     avgFoodPerDay = 800, petrolPerKm = 7,
     topSpots = [\<lparr>name = ''Hawa Mahal'', type = ''monument'', rating = 5\<rparr>,
                 \<lparr>name = ''Amber Fort'', type = ''fort'', rating = 5\<rparr>],
     reviews = []\<rparr>"

definition udaipur :: "nat City" where
  "udaipur = \<lparr>city = ''Udaipur'', state = ''Rajasthan'', avgHotelPerNight = 3000,
     avgFoodPerDay = 900, petrolPerKm = 7,
     topSpots = [\<lparr>name = ''Lake Pichola'', type = ''lake'', rating = 5\<rparr>],
     reviews = []\<rparr>"

text \<open>A record whose state name is the empty string.\<close>

definition daman :: "nat City" where
  "daman = \<lparr>city = ''Daman'', state = [], avgHotelPerNight = 1800,
     avgFoodPerDay = 600, petrolPerKm = 7, topSpots = [], reviews = []\<rparr>"

definition snippetA :: Doc where
  "snippetA = \<lparr>content = ''Hawa Mahal is best at sunrise.'',
     metadata = \<lparr>source = ''jaipur.txt''\<rparr>\<rparr>"

definition snippetB :: Doc where
  "snippetB = \<lparr>content = ''Price range: $$'', metadata = \<lparr>source = ''food.txt''\<rparr>\<rparr>"

definition freshResponse :: Response where
  "freshResponse = \<lparr>statusCode = 200, headers = [], headersSent = False, written = [],
     writableEnded = False\<rparr>"

definition freshState :: "nat State" where
  "freshState = \<lparr>res = freshResponse, calls = []\<rparr>"

definition goodStream :: StreamResult where
  "goodStream = \<lparr>stream = [Inr ''Namaste! '', Inr ''Jaipur chalein?''], streamFailure = None\<rparr>"

definition brokenStream :: StreamResult where
  "brokenStream = \<lparr>stream = [Inr ''Namaste! ''],
     streamFailure = Some (Error ''socket hang up'')\<rparr>"

definition demoEnv :: "nat Env" where
  "demoEnv = \<lparr>embedQuery = (\<lambda>q. Inr [1, 2, 3]),
     rpc = (\<lambda>fn v k. Inr \<lparr>data = Some [snippetA, snippetB], error = None\<rparr>),
     startChat = (\<lambda>seed. Inr ()),
     sendMessageStream = (\<lambda>seed q. Inr goodStream)\<rparr>"

definition embedDownEnv :: "nat Env" where
  "embedDownEnv = demoEnv\<lparr>embedQuery := (\<lambda>q. Inl (Error ''quota exceeded''))\<rparr>"

definition streamDownEnv :: "nat Env" where
  "streamDownEnv = demoEnv\<lparr>sendMessageStream := (\<lambda>seed q. Inr brokenStream)\<rparr>"

definition noRowsEnv :: "nat Env" where
  "noRowsEnv = demoEnv\<lparr>rpc := (\<lambda>fn v k. Inr \<lparr>data = Some [], error = None\<rparr>)\<rparr>"

definition jaipurRequest :: Request where
  "jaipurRequest = \<lparr>body = Body (Str ''3 days in Jaipur under budget'')\<rparr>"

definition offTopicRequest :: Request where
  "offTopicRequest = \<lparr>body = Body (Str ''  How do I sort a list in Python?  '')\<rparr>"

definition absentQueryRequest :: Request where
  "absentQueryRequest = \<lparr>body = Body Undefined\<rparr>"

section \<open>Properties of the structured lookup\<close>

lemmas search_eval = searchCity_def directMatch_def wordMatch_def toLowerCase_def isUpper_def
  isWordChar_def Let_def

lemma includesStr_sublist: "includesStr s t \<longleftrightarrow> sublist t s"
  by (induction s) (auto simp: sublist_Cons_right)

lemma splitNonWord_nonempty: "splitNonWord s \<noteq> []"
  by (induction s) (auto split: list.splits)

lemma splitNonWord_nonword_hd:
  "s \<noteq> [] \<Longrightarrow> \<not> isWordChar (hd s) \<Longrightarrow> splitNonWord s = v # vs \<Longrightarrow> v = []"
  by (induction s arbitrary: v vs) (auto split: if_splits)

lemma splitNonWord_hd_prefix: "splitNonWord s = v # vs \<Longrightarrow> prefix v s"
  by (induction s arbitrary: v vs)
     (auto split: if_splits list.splits dest: splitNonWord_nonword_hd)

text \<open>Every piece of the split is a piece of the string.\<close>

lemma splitNonWord_sublist: "w \<in> set (splitNonWord s) \<Longrightarrow> sublist w s"
proof (induction s arbitrary: w)
  case Nil
  then show ?case by simp
next
  case (Cons c cs)
  show ?case
  proof (cases "isWordChar c")
    case True
    obtain v vs where sp: "splitNonWord cs = v # vs"
      using splitNonWord_nonempty [of cs] by (cases "splitNonWord cs") auto
    from Cons.prems True sp have "w = c # v \<or> w \<in> set vs" by auto
    then show ?thesis
    proof
      assume w: "w = c # v"
      have "prefix v cs" using sp by (rule splitNonWord_hd_prefix)
      then have "prefix w (c # cs)" using w by simp
      then show ?thesis by (rule prefix_imp_sublist)
    next
      assume "w \<in> set vs"
      then have "sublist w cs" using Cons.IH sp by simp
      then show ?thesis by (simp add: sublist_Cons_right)
    qed
  next
    case False
    with Cons show ?thesis
      by (auto simp: sublist_Cons_right split: if_splits)
  qed
qed

text \<open>
  A record selected by the second filter is selected by the first one: a word of the
  query occurs in the query. So the second filter never adds a record.
\<close>

lemma wordMatch_directMatch: "wordMatch (splitNonWord q) c \<Longrightarrow> directMatch q c"
  by (auto simp: wordMatch_def directMatch_def list_ex_iff includesStr_sublist
      dest: splitNonWord_sublist)

lemma searchCity_direct:
  "searchCity query cities = filter (directMatch (toLowerCase query)) cities"
proof (cases "filter (directMatch (toLowerCase query)) cities = []")
  case True
  then have "\<forall>c \<in> set cities. \<not> directMatch (toLowerCase query) c"
    by (simp add: filter_empty_conv)
  then have "filter (wordMatch (splitNonWord (toLowerCase query))) cities = []"
    by (auto simp: filter_empty_conv dest: wordMatch_directMatch)
  with True show ?thesis by (simp add: searchCity_def Let_def)
next
  case False
  then show ?thesis by (simp add: searchCity_def Let_def)
qed

lemma tokensFrom_sublist: "w \<in> set (tokensFrom cur s) \<Longrightarrow> sublist w (cur @ s)"
proof (induction s arbitrary: cur)
  case Nil
  then show ?case by (auto split: if_splits)
next
  case (Cons c cs)
  show ?case
  proof (cases "isDelimiter c")
    case True
    with Cons.prems have "w = cur \<or> w \<in> set (tokensFrom [] cs)"
      by (auto split: if_splits)
    then show ?thesis
    proof
      assume "w = cur"
      then show ?thesis by simp
    next
      assume "w \<in> set (tokensFrom [] cs)"
      then have "sublist w cs" using Cons.IH [of "[]"] by simp
      then show ?thesis by (auto simp: sublist_def) (metis append.assoc append_Cons append_Nil)
    qed
  next
    case False
    with Cons.prems have "w \<in> set (tokensFrom (cur @ [c]) cs)" by simp
    then have "sublist w ((cur @ [c]) @ cs)" by (rule Cons.IH)
    then show ?thesis by simp
  qed
qed

lemma searchCity_spec_direct:
  "searchCity_spec query records = filter (directMatch (toLowerCase query)) records"
proof -
  let ?q = "toLowerCase query"
  have p: "(\<lambda>r. sublist (toLowerCase (city r)) ?q \<or> sublist (toLowerCase (state r)) ?q) =
           directMatch ?q"
    by (rule ext) (simp add: directMatch_def includesStr_sublist)
  show ?thesis
  proof (cases "filter (directMatch ?q) records = []")
    case True
    then have no: "\<forall>c \<in> set records. \<not> directMatch ?q c"
      by (simp add: filter_empty_conv)
    have "filter (\<lambda>r. toLowerCase (city r) \<in> set (tokens ?q)) records = []"
    proof (simp only: filter_empty_conv, intro ballI notI)
      fix r assume r: "r \<in> set records" and t: "toLowerCase (city r) \<in> set (tokens ?q)"
      from t have "sublist (toLowerCase (city r)) ?q"
        using tokensFrom_sublist [of _ "[]" ?q] by (simp add: tokens_def)
      then have "directMatch ?q r" by (simp add: directMatch_def includesStr_sublist)
      with no r show False by blast
    qed
    with True show ?thesis by (simp add: searchCity_spec_def Let_def p)
  next
    case False
    then show ?thesis by (simp add: searchCity_spec_def Let_def p)
  qed
qed

lemma searchCity_empty_query:
  assumes "\<forall>c \<in> set cities. city c \<noteq> [] \<and> state c \<noteq> []"
  shows "searchCity [] cities = []"
  using assms
  by (simp add: searchCity_direct filter_empty_conv directMatch_def toLowerCase_def)

text \<open>
  Lowering character by character keeps an occurrence. The host language lowers character
  by character on ASCII strings, so the lemma is stated for ASCII queries.
\<close>

lemma lowered_name_in_lowered_query:
  "sublist (city c) query \<Longrightarrow> \<forall>ch \<in> set query. (of_char ch :: nat) < 128 \<Longrightarrow>
     directMatch (toLowerCase query) c"
  by (simp add: directMatch_def includesStr_sublist toLowerCase_def map_mono_sublist)

text \<open>
  Claim C5, as the code has it. When the lowercased query contains the lowercased name of
  a city of the dataset, the record of that city is in the result of \<^const>\<open>searchCity\<close>,
  after the earlier records of the dataset whose city or state name occurs in the query
  too, and before the later ones. It is the first element of the result when no earlier
  record of the dataset matches. A query of ASCII characters that contains the exact name
  of the city is such a query. The first case uses no property of the lowering; the second
  one is where the lowering of the model is the lowering of the host language.
\<close>

theorem searchCity_exact_name:
  assumes "cities = pre @ c # post"
    and "sublist (toLowerCase (city c)) (toLowerCase query)
         \<or> (sublist (city c) query \<and> (\<forall>ch \<in> set query. (of_char ch :: nat) < 128))"
  shows "searchCity query cities =
           filter (directMatch (toLowerCase query)) pre @ c #
           filter (directMatch (toLowerCase query)) post
         \<and> ((\<forall>d \<in> set pre. \<not> directMatch (toLowerCase query) d) \<longrightarrow>
              searchCity query cities = c # filter (directMatch (toLowerCase query)) post)"
proof -
  from assms(2) have m: "directMatch (toLowerCase query) c"
  proof
    assume "sublist (toLowerCase (city c)) (toLowerCase query)"
    then show ?thesis by (simp add: directMatch_def includesStr_sublist)
  next
    assume "sublist (city c) query \<and> (\<forall>ch \<in> set query. (of_char ch :: nat) < 128)"
    then show ?thesis by (simp add: lowered_name_in_lowered_query)
  qed
  have eq: "searchCity query cities =
           filter (directMatch (toLowerCase query)) pre @ c #
           filter (directMatch (toLowerCase query)) post"
    using m by (simp add: searchCity_direct assms(1))
  then show ?thesis by (simp add: filter_empty_conv)
qed

text \<open>The theorem at the query \<open>Weekend in Udaipur\<close>: Jaipur comes first in the dataset
  and does not match, so the record of Udaipur is the whole result.\<close>

theorem searchCity_exact_name_witness:
  "[jaipur, udaipur] = [jaipur] @ udaipur # [] \<and> sublist (city udaipur) ''Weekend in Udaipur''
   \<and> list_all (\<lambda>ch. (of_char ch :: nat) < 128) ''Weekend in Udaipur''
   \<and> \<not> directMatch (toLowerCase ''Weekend in Udaipur'') jaipur
   \<and> searchCity ''Weekend in Udaipur'' [jaipur, udaipur] = [udaipur]"
proof -
  have s: "sublist (city udaipur) ''Weekend in Udaipur''"
    by (simp add: udaipur_def sublist_code)
  have a: "list_all (\<lambda>ch. (of_char ch :: nat) < 128) ''Weekend in Udaipur''"
    by simp
  then have a': "\<forall>ch \<in> set ''Weekend in Udaipur''. (of_char ch :: nat) < 128"
    by (simp only: list_all_iff)
  have n: "\<not> directMatch (toLowerCase ''Weekend in Udaipur'') jaipur"
    by (simp add: jaipur_def search_eval)
  have d: "sublist (toLowerCase (city udaipur)) (toLowerCase ''Weekend in Udaipur'')
         \<or> (sublist (city udaipur) ''Weekend in Udaipur''
             \<and> (\<forall>ch \<in> set ''Weekend in Udaipur''. (of_char ch :: nat) < 128))"
    using s a' by blast
  from searchCity_exact_name [of "[jaipur, udaipur]" "[jaipur]" udaipur "[]", OF _ d] n s a
  show ?thesis by simp
qed

text \<open>
  Claim C5 as stated fails: the query \<open>Udaipur in Rajasthan\<close> contains the exact name
  of Udaipur and of no other city, and the first element of the result is the record of
  Jaipur, which comes first in the dataset and matches by its state name.
\<close>

theorem searchCity_first_counterexample:
  "sublist (city udaipur) ''Udaipur in Rajasthan'' \<and> udaipur \<in> set [jaipur, udaipur]
   \<and> \<not> sublist (city jaipur) ''Udaipur in Rajasthan''
   \<and> searchCity ''Udaipur in Rajasthan'' [jaipur, udaipur] = [jaipur, udaipur]
   \<and> hd (searchCity ''Udaipur in Rajasthan'' [jaipur, udaipur]) \<noteq> udaipur"
  by (simp add: search_eval jaipur_def udaipur_def sublist_code)

text \<open>
  Claim C6, as the code has it. \<^const>\<open>searchCity\<close> computes the two-tier lookup of the
  specification, for every query and every list of records: the records whose lowercased
  city or state name occurs in the lowercased query, in dataset order, when there are any;
  otherwise the records whose lowercased city name is a token of the query; otherwise the
  empty list. The empty query gives the empty result when no record has an empty city or
  state name.
\<close>

theorem searchCity_refines_spec:
  "searchCity query cities = searchCity_spec query cities
   \<and> ((\<forall>c \<in> set cities. city c \<noteq> [] \<and> state c \<noteq> []) \<longrightarrow> searchCity [] cities = [])"
proof (intro conjI impI)
  show "searchCity query cities = searchCity_spec query cities"
    by (simp add: searchCity_direct searchCity_spec_direct)
next
  assume "\<forall>c \<in> set cities. city c \<noteq> [] \<and> state c \<noteq> []"
  then show "searchCity [] cities = []" by (rule searchCity_empty_query)
qed

text \<open>The theorem at a dataset of two named cities.\<close>

theorem searchCity_refines_spec_witness:
  "city jaipur \<noteq> [] \<and> state jaipur \<noteq> [] \<and> city udaipur \<noteq> [] \<and> state udaipur \<noteq> []
   \<and> searchCity [] [jaipur, udaipur] = []
   \<and> searchCity_spec ''3 days in Jaipur under budget'' [jaipur, udaipur] = [jaipur]"
proof -
  have h: "\<forall>c \<in> set [jaipur, udaipur]. city c \<noteq> [] \<and> state c \<noteq> []"
    by (simp add: jaipur_def udaipur_def)
  have e: "searchCity ''3 days in Jaipur under budget'' [jaipur, udaipur] = [jaipur]"
    by (simp add: search_eval jaipur_def udaipur_def)
  from searchCity_refines_spec [of "''3 days in Jaipur under budget''" "[jaipur, udaipur]"]
    searchCity_refines_spec [of "[]" "[jaipur, udaipur]"] h e
  show ?thesis by simp
qed

text \<open>
  Claim C6 as stated fails in its last clause: every string contains the empty string, so
  a record whose state name is empty is returned for the empty query.
\<close>

theorem searchCity_empty_query_counterexample:
  "searchCity [] [jaipur, daman] = [daman] \<and> searchCity [] [jaipur, daman] \<noteq> []"
  by (simp add: search_eval jaipur_def daman_def)

section \<open>Properties of the fused context and of the seed\<close>

lemma joinStr_Cons: "joinStr sep (x # xs) = x @ concat (map (\<lambda>y. sep @ y) xs)"
  by (induction sep xs arbitrary: x rule: joinStr.induct) simp_all

lemma ragContext_empty: "ragData = None \<or> ragData = Some [] \<Longrightarrow> ragContext ragData = []"
  by (auto simp: ragContext_def)

text \<open>
  Claim C4, as the code has it. The fused context is never empty. When no city matches and
  no row is returned, it holds the sentence \<open>No specific city found in my database.\<close>
  in its structured section, and its retrieved-context section is the label
  \<open>RAG Context: \<close> followed by the empty string: the handler logs that no row was found
  and writes no placeholder.
\<close>

theorem finalContext_nonempty_placeholder:
  "finalContext (structuredContext num cityHits) (ragContext ragData) \<noteq> []
   \<and> sublist ''Structured Data: No specific city found in my database.''
         (finalContext (structuredContext num []) (ragContext (Some [])))
   \<and> ragContext (Some []) = [] \<and> ragContext None = []
   \<and> suffix (''RAG Context: '' @ [CHR 0x0A] @ ''      '')
         (finalContext (structuredContext num []) (ragContext (Some [])))"
  by (simp add: finalContext_def structuredContext_def ragContext_def sublist_code suffix_def)

text \<open>
  Claim C4 as stated fails: with no city and no row, nothing stands between the label of
  the retrieved-context section and the end of the context.
\<close>

theorem finalContext_no_snippet_placeholder_counterexample:
  "ragContext (Some []) = []
   \<and> finalContext (structuredContext showNat []) (ragContext (Some [])) =
       [CHR 0x0A] @ ''        Structured Data: No specific city found in my database.'' @
       [CHR 0x0A] @ ''        RAG Context: '' @ [CHR 0x0A] @ ''      ''"
  by (simp add: finalContext_def structuredContext_def ragContext_def)

text \<open>
  Claim C7. The fused context is the structured section followed by the retrieved-context
  section, in a fixed layout. The structured line is the fixed sentence when no city
  matched; otherwise it gives the name, the state, the hotel cost, the food cost and the
  names of the top spots of the first match, the names separated by a comma and a space.
  The retrieved-context section is empty for no rows; otherwise each row is rendered as
  \<open>[From source]: content\<close> and the rows are separated by a line of three dashes.
\<close>

theorem finalContext_format:
  "finalContext (structuredContext num cityHits) (ragContext ragData) =
     [CHR 0x0A] @ ''        Structured Data: '' @ structuredContext num cityHits @
     [CHR 0x0A] @ ''        RAG Context: '' @ ragContext ragData @ [CHR 0x0A] @ ''      ''
   \<and> structuredContext num [] = ''No specific city found in my database.''
   \<and> structuredContext num (c # others) =
       ''Found Data: '' @ city c @ '', STATE:'' @ state c @ '', HOTEL:'' @ num (avgHotelPerNight c) @
       '', FOOD:'' @ num (avgFoodPerDay c) @ '', SPOTS:'' @
       (case topSpots c of [] \<Rightarrow> [] | s # ss \<Rightarrow> name s @ concat (map (\<lambda>t. '', '' @ name t) ss))
   \<and> ragContext None = [] \<and> ragContext (Some []) = []
   \<and> ragContext (Some (d # ds)) =
       ''[From '' @ source (metadata d) @ '']: '' @ content d @
       concat (map (\<lambda>e. [CHR 0x0A] @ ''---'' @ [CHR 0x0A] @
                         ''[From '' @ source (metadata e) @ '']: '' @ content e) ds)"
  by (simp add: finalContext_def structuredContext_def foundData_def ragContext_def renderDoc_def
      joinStr_Cons comp_def split: list.split)

text \<open>The context for a query about Jaipur with two rows.\<close>

lemma finalContext_example:
  "finalContext
     (structuredContext showNat (searchCity ''3 days in Jaipur under budget'' [jaipur, udaipur]))
     (ragContext (Some [snippetA, snippetB])) =
   [CHR 0x0A] @ ''        Structured Data: Found Data: Jaipur, STATE:Rajasthan, HOTEL:2500, FOOD:800, SPOTS:Hawa Mahal, Amber Fort'' @
   [CHR 0x0A] @ ''        RAG Context: [From jaipur.txt]: Hawa Mahal is best at sunrise.'' @
   [CHR 0x0A] @ ''---'' @ [CHR 0x0A] @ ''[From food.txt]: Price range: $$'' @ [CHR 0x0A] @ ''      ''"
  by (simp add: finalContext_def structuredContext_def foundData_def ragContext_def renderDoc_def
      search_eval jaipur_def udaipur_def snippetA_def snippetB_def showNat.simps)

text \<open>The placeholder is found where the template has it: no brace comes before it.\<close>

lemma splitAtFirst_fresh:
  "p \<notin> set pre \<Longrightarrow> splitAtFirst (p # ps) (pre @ (p # ps) @ post) = Some (pre, post)"
  by (induction pre) auto

lemma brace_not_in_promptBefore: "CHR ''{'' \<notin> set promptBefore"
  by (simp add: promptBefore_def)

text \<open>The template has no second placeholder.\<close>

lemma brace_not_in_promptAfter: "CHR ''{'' \<notin> set promptAfter"
  by (simp add: promptAfter_def)

lemma finalSystemPrompt_eq:
  "finalSystemPrompt context =
     promptBefore @ getSubstitution ''{context}'' promptBefore promptAfter context @ promptAfter"
  using splitAtFirst_fresh [OF brace_not_in_promptBefore, of "''context}''" promptAfter]
  by (simp add: finalSystemPrompt_def replaceFirst_def systemPrompt_def)

lemma getSubstitution_no_dollar:
  "CHR ''$'' \<notin> set replacement \<Longrightarrow> getSubstitution m b a replacement = replacement"
  by (induction m b a replacement rule: getSubstitution.induct) auto

text \<open>
  For a context without a dollar sign the seed is the two turns of the specification: the
  template with the context in the place of the placeholder, as the user, and the
  acknowledgement, as the model.
\<close>

lemma history_no_dollar:
  "CHR ''$'' \<notin> set context \<Longrightarrow>
     history context =
       [\<lparr>role = ''user'', parts = [TextPart (promptBefore @ context @ promptAfter)]\<rparr>,
        \<lparr>role = ''model'', parts = [TextPart acknowledgement]\<rparr>]"
  by (simp add: history_def finalSystemPrompt_eq getSubstitution_no_dollar)

text \<open>
  Claim C8 fails on the code for a context with a dollar sign. A row whose text is
  \<open>Price range: $$\<close> reaches the model as \<open>Price range: $\<close>: the replacement
  text of \<^verbatim>\<open>replace\<close> is expanded, and \<^verbatim>\<open>$$\<close> stands for one dollar sign. The first
  turn of the seed is then not the template with the fused context in the place of the
  placeholder.
\<close>

theorem history_collapses_dollars:
  "history (finalContext (structuredContext showNat []) (ragContext (Some [snippetB]))) =
     [\<lparr>role = ''user'', parts = [TextPart (promptBefore @
         finalContext (structuredContext showNat [])
           (ragContext (Some [snippetB\<lparr>content := ''Price range: $''\<rparr>])) @
         promptAfter)]\<rparr>,
      \<lparr>role = ''model'', parts = [TextPart acknowledgement]\<rparr>]
   \<and> history (finalContext (structuredContext showNat []) (ragContext (Some [snippetB]))) \<noteq>
     [\<lparr>role = ''user'', parts = [TextPart (promptBefore @
         finalContext (structuredContext showNat []) (ragContext (Some [snippetB])) @
         promptAfter)]\<rparr>,
      \<lparr>role = ''model'', parts = [TextPart acknowledgement]\<rparr>]"
  by (simp add: history_def finalSystemPrompt_eq finalContext_def structuredContext_def
      ragContext_def renderDoc_def snippetB_def)

section \<open>Properties of the handler\<close>

lemmas json_eval = stringify_def quoteJSONString_def quoteChar_def sseData_def Let_def

lemmas handler_eval = chatHandler_def tryBlock_def prepare_def streamAnswer_def catchBlock_def
  readQuery_def trim_def isSpace_def called_def commitEventStream_def setHeader_def
  flushHeaders_def writeChunk_def end_response_def json_def status_def Let_def

lemmas demo_eval = demoEnv_def embedDownEnv_def streamDownEnv_def noRowsEnv_def freshState_def
  freshResponse_def jaipurRequest_def offTopicRequest_def absentQueryRequest_def goodStream_def
  brokenStream_def

subsection \<open>The frames\<close>

lemma textEvent_not_terminal: "\<not> isTerminalEvent (textEvent t)"
  by (simp add: isTerminalEvent_def textEvent_def doneEvent_def json_eval)

lemma doneEvent_terminal: "isTerminalEvent doneEvent"
  by (simp add: isTerminalEvent_def)

lemma errorEvent_terminal: "isTerminalEvent (errorEvent m)"
  by (simp add: isTerminalEvent_def errorEvent_def json_eval)

lemma errorPayload_not_event: "\<not> isStreamEvent errorPayload"
  by (simp add: isStreamEvent_def errorPayload_def json_eval)

lemma errorPayload_not_terminal: "\<not> isTerminalEvent errorPayload"
  by (simp add: isTerminalEvent_def errorPayload_def doneEvent_def json_eval)

lemma events_are_stream_events:
  "isStreamEvent (textEvent t)" "isStreamEvent doneEvent" "isStreamEvent (errorEvent m)"
  by (simp_all add: isStreamEvent_def textEvent_def doneEvent_def errorEvent_def sseData_def)

lemma noEventAfterTerminal_texts_then: "noEventAfterTerminal (map textEvent ts @ [w])"
  by (induction ts) (simp_all add: textEvent_not_terminal)

subsection \<open>The frames, byte for byte\<close>

text \<open>
  The reader gives back every character that was quoted, whatever follows it; so a quoted
  string is read back as it was, and the message of an \<open>error\<close> frame is the message
  the frame was written for.
\<close>

lemma readJSONString_quoteChar:
  "readJSONString (quoteChar c @ xs) = map_option (\<lambda>(s, r). (c # s, r)) (readJSONString xs)"
  apply (cases c)
  subgoal for b0 b1 b2 b3 b4 b5 b6 b7
    by (cases b0; cases b1; cases b2; cases b3; cases b4; cases b5; cases b6; cases b7)
       (simp_all add: quoteChar_def hexDigit_def hexValue_def byteOf_def Let_def)
  done


lemma readJSONString_quoted:
  "readJSONString (concat (map quoteChar s) @ CHR 0x22 # rest) = Some (s, rest)"
  by (induction s) (simp_all add: readJSONString_quoteChar)

lemma errorMessageOf_errorEvent: "errorMessageOf (errorEvent msg) = Some msg"
  using readJSONString_quoted [of msg "''}'' @ [CHR 0x0A, CHR 0x0A]"]
  by (simp add: errorMessageOf_def errorEvent_def json_eval)

lemma errorEvent_literal:
  "errorEvent msg =
     ''data: {'' @ [CHR 0x22] @ ''error'' @ [CHR 0x22] @ '':'' @ quoteJSONString msg @ ''}'' @
     [CHR 0x0A, CHR 0x0A]"
  by (simp add: errorEvent_def json_eval)

lemma quoteChar_plain:
  "32 \<le> (of_char c :: nat) \<Longrightarrow> c \<noteq> CHR 0x22 \<Longrightarrow> c \<noteq> CHR 0x5C \<Longrightarrow> quoteChar c = [c]"
  apply (cases c)
  subgoal for b0 b1 b2 b3 b4 b5 b6 b7
    by (cases b0; cases b1; cases b2; cases b3; cases b4; cases b5; cases b6; cases b7)
       (simp_all add: quoteChar_def Let_def)
  done

lemma quoteJSONString_plain:
  "\<forall>c \<in> set s. 32 \<le> (of_char c :: nat) \<and> c \<noteq> CHR 0x22 \<and> c \<noteq> CHR 0x5C \<Longrightarrow>
     quoteJSONString s = [CHR 0x22] @ s @ [CHR 0x22]"
  by (induction s) (simp_all add: quoteJSONString_def quoteChar_plain)

lemma errorPayload_literal:
  "errorPayload =
     ''{'' @ [CHR 0x22] @ ''reply'' @ [CHR 0x22] @ '':'' @ [CHR 0x22] @
     ''Aiyoo server ko thoda pani de do '' @
     [CHR 0xF0, CHR 0x9F, CHR 0x98, CHR 0xAD, CHR 0xF0, CHR 0x9F, CHR 0x92, CHR 0xA6] @
     '' brb!'' @ [CHR 0x22] @ ''}''"
  by (simp add: errorPayload_def fixedReply_def json_eval)


lemma textEvent_literal:
  "textEvent t =
     ''data: {'' @ [CHR 0x22] @ ''text'' @ [CHR 0x22] @ '':'' @ quoteJSONString t @ ''}'' @
     [CHR 0x0A, CHR 0x0A]"
  by (simp add: textEvent_def json_eval)

subsection \<open>The phases of the try block\<close>

lemma commitEventStream_fields:
  "headersSent (commitEventStream r)" "statusCode (commitEventStream r) = statusCode r"
  "written (commitEventStream r) = written r"
  "writableEnded (commitEventStream r) = writableEnded r"
  by (simp_all add: commitEventStream_def flushHeaders_def setHeader_def)

lemma json_fields:
  "written (json obj r) = written r @ [stringify obj]" "writableEnded (json obj r)"
  "statusCode (json obj r) = statusCode r"
  by (simp_all add: json_def writeChunk_def end_response_def setHeader_def)

text \<open>The loop writes one text frame for each increment read, and nothing else.\<close>

lemma forAwait_fields:
  "forAwait chunks r = (out, r') \<Longrightarrow>
     out = firstFailure chunks \<and> written r' = written r @ map textEvent (delivered chunks) \<and>
     statusCode r' = statusCode r \<and> headers r' = headers r \<and>
     writableEnded r' = writableEnded r \<and> (headersSent r \<longrightarrow> headersSent r')"
proof (induction chunks arbitrary: r)
  case Nil
  then show ?case by simp
next
  case (Cons chunk rest)
  show ?case
  proof (cases chunk)
    case (Inl e)
    with Cons.prems show ?thesis by simp
  next
    case (Inr t)
    with Cons.prems have "forAwait rest (writeChunk (textEvent t) r) = (out, r')" by simp
    from Cons.IH [OF this] Inr show ?thesis by (simp add: writeChunk_def)
  qed
qed

text \<open>Nothing is sent before the chat session exists.\<close>

lemma prepare_res: "prepare num env cities db req st = (x, st') \<Longrightarrow> res st' = res st"
  by (auto simp: prepare_def called_def Let_def split: sum.splits option.splits)

lemma streamAnswer_fields:
  assumes "streamAnswer env q seed st = (out, st')"
  shows "calls st' = calls st @ [SendMessageStream seed q]"
    and "headersSent (res st')"
    and "statusCode (res st') = statusCode (res st)"
    and "headers (res st') = headers (commitEventStream (res st))"
    and "\<exists>texts. written (res st') =
           written (res st) @ map textEvent texts @ (if out = None then [doneEvent] else [])"
    and "out = None \<Longrightarrow> writableEnded (res st')"
proof -
  let ?r = "commitEventStream (res st)"
  show "calls st' = calls st @ [SendMessageStream seed q]"
    using assms
    by (auto simp: streamAnswer_def called_def Let_def split: sum.splits option.splits prod.splits)
  show "headersSent (res st')"
    using assms commitEventStream_fields(1) [of "res st"]
    by (auto simp: streamAnswer_def called_def Let_def writeChunk_def end_response_def
        split: sum.splits option.splits prod.splits dest!: forAwait_fields)
  show "statusCode (res st') = statusCode (res st)"
    using assms
    by (auto simp: streamAnswer_def called_def Let_def writeChunk_def end_response_def
        commitEventStream_fields split: sum.splits option.splits prod.splits
        dest!: forAwait_fields)
  show "headers (res st') = headers (commitEventStream (res st))"
    using assms
    by (auto simp: streamAnswer_def called_def Let_def writeChunk_def end_response_def
        split: sum.splits option.splits prod.splits dest!: forAwait_fields)
  show "\<exists>texts. written (res st') =
           written (res st) @ map textEvent texts @ (if out = None then [doneEvent] else [])"
  proof (cases "sendMessageStream env seed q")
    case (Inl e)
    with assms have "out = Some e" "res st' = ?r"
      by (auto simp: streamAnswer_def called_def Let_def)
    then show ?thesis by (auto simp: commitEventStream_fields intro: exI [of _ "[]"])
  next
    case (Inr result)
    obtain o1 r1 where fa: "forAwait (stream result) ?r = (o1, r1)"
      by (cases "forAwait (stream result) ?r")
    from forAwait_fields [OF fa]
    have w: "written r1 = written (res st) @ map textEvent (delivered (stream result))"
      by (simp add: commitEventStream_fields)
    show ?thesis
    proof (cases "o1 = None \<and> streamFailure result = None")
      case True
      with assms Inr fa have "out = None" "res st' = end_response (writeChunk doneEvent r1)"
        by (auto simp: streamAnswer_def called_def Let_def)
      with w show ?thesis by (auto simp: writeChunk_def end_response_def)
    next
      case False
      then consider e where "o1 = Some e" | e where "o1 = None" "streamFailure result = Some e"
        by (cases o1; cases "streamFailure result") auto
      then have "out \<noteq> None \<and> res st' = r1"
      proof cases
        case 1
        with assms Inr fa show ?thesis by (auto simp: streamAnswer_def called_def Let_def)
      next
        case 2
        with assms Inr fa have "out = Some e" "res st' = r1"
          by (auto simp: streamAnswer_def called_def Let_def)
        then show ?thesis by simp
      qed
      with w show ?thesis by auto
    qed
  qed
  show "out = None \<Longrightarrow> writableEnded (res st')"
    using assms
    by (auto simp: streamAnswer_def called_def Let_def writeChunk_def end_response_def
        split: sum.splits option.splits prod.splits)
qed

text \<open>
  The try block ends in the first phase, with the response untouched, or in the second
  one, after the headers were sent.
\<close>

lemma tryBlock_cases:
  assumes "tryBlock num env cities db req st = (out, st')"
  shows "(\<exists>e. prepare num env cities db req st = (Inl e, st') \<and> out = Some e \<and> res st' = res st)
       \<or> (\<exists>q seed st1. prepare num env cities db req st = (Inr (q, seed), st1) \<and> res st1 = res st
             \<and> streamAnswer env q seed st1 = (out, st'))"
proof (cases "prepare num env cities db req st")
  case (Pair x st1)
  then have r: "res st1 = res st" by (rule prepare_res)
  show ?thesis
  proof (cases x)
    case (Inl e)
    with Pair assms r show ?thesis by (simp add: tryBlock_def)
  next
    case (Inr p)
    with Pair assms r show ?thesis by (cases p) (simp add: tryBlock_def)
  qed
qed

lemma handler_catch_before:
  assumes "tryBlock num env cities db req st = (Some e, st')" and "\<not> headersSent (res st')"
  shows "res (chatHandler num env cities db req st) =
           json [(''reply'', JString fixedReply)] (status 500 (res st))"
proof -
  from tryBlock_cases [OF assms(1)] assms(2) have "res st' = res st"
    by (auto dest: streamAnswer_fields(2))
  with assms show ?thesis by (simp add: chatHandler_def catchBlock_def)
qed

lemma handler_catch_after:
  assumes "tryBlock num env cities db req st = (Some e, st')" and "headersSent (res st')"
  shows "res (chatHandler num env cities db req st) =
           end_response (writeChunk (errorEvent (message e)) (res st'))"
  using assms by (simp add: chatHandler_def catchBlock_def)

subsection \<open>The calls made to the services\<close>

lemma catchBlock_calls: "calls (catchBlock e st) = calls st"
  by (simp add: catchBlock_def)

lemma handler_calls:
  "calls (chatHandler num env cities db req st) =
     (case prepare num env cities db req st of
        (Inl e, st') \<Rightarrow> calls st'
      | (Inr (q, seed), st') \<Rightarrow> calls st' @ [SendMessageStream seed q])"
proof (cases "prepare num env cities db req st")
  case (Pair x st1)
  show ?thesis
  proof (cases x)
    case (Inl e)
    with Pair show ?thesis by (simp add: chatHandler_def tryBlock_def catchBlock_calls)
  next
    case (Inr p)
    obtain q seed where p: "p = (q, seed)" by (cases p)
    obtain out st2 where sa: "streamAnswer env q seed st1 = (out, st2)"
      by (cases "streamAnswer env q seed st1")
    from streamAnswer_fields(1) [OF sa] Pair Inr p sa show ?thesis
      by (cases out) (simp_all add: chatHandler_def tryBlock_def catchBlock_calls)
  qed
qed

lemma prepare_readQuery:
  assumes "readQuery (body req) = Inr q"
  shows "prepare num env cities db req st =
     (case embedQuery env q of
        Inl e \<Rightarrow> (Inl e, st\<lparr>calls := calls st @ [EmbedQuery q]\<rparr>)
      | Inr v \<Rightarrow>
         (case rpc env db v 3 of
            Inl e \<Rightarrow> (Inl e, st\<lparr>calls := calls st @ [EmbedQuery q, Rpc db v 3]\<rparr>)
          | Inr reply \<Rightarrow>
             (case error reply of
                Some rpcError \<Rightarrow>
                  (Inl (Error (''Failed to match documents: '' @ rpcMessage rpcError)),
                   st\<lparr>calls := calls st @ [EmbedQuery q, Rpc db v 3]\<rparr>)
              | None \<Rightarrow>
                  (let seed = history (finalContext (structuredContext num (searchCity q cities))
                                (ragContext (data reply)))
                   in case startChat env seed of
                        Inl e \<Rightarrow>
                          (Inl e, st\<lparr>calls := calls st @ [EmbedQuery q, Rpc db v 3, StartChat seed]\<rparr>)
                      | Inr u \<Rightarrow>
                          (Inr (q, seed),
                           st\<lparr>calls := calls st @ [EmbedQuery q, Rpc db v 3, StartChat seed]\<rparr>)))))"
  using assms by (simp add: prepare_def called_def Let_def split: sum.splits option.splits)

text \<open>Once the chat session exists, the headers are sent with the status left as it was.\<close>

lemma handler_committed:
  assumes "prepare num env cities db req st = (Inr (q, seed), st1)"
  shows "headersSent (res (chatHandler num env cities db req st))
       \<and> statusCode (res (chatHandler num env cities db req st)) = statusCode (res st)
       \<and> headers (res (chatHandler num env cities db req st)) = headers (commitEventStream (res st))"
proof -
  have r: "res st1 = res st" using assms by (rule prepare_res)
  obtain out st2 where sa: "streamAnswer env q seed st1 = (out, st2)"
    by (cases "streamAnswer env q seed st1")
  note f = streamAnswer_fields(2-4) [OF sa]
  show ?thesis
  proof (cases out)
    case None
    with assms sa f r show ?thesis by (simp add: chatHandler_def tryBlock_def)
  next
    case (Some e)
    with assms sa f r show ?thesis
      by (simp add: chatHandler_def tryBlock_def catchBlock_def writeChunk_def end_response_def)
  qed
qed

lemma readQuery_absent:
  "b = Body Undefined \<or> b = Body Null \<or> b = Body (Str []) \<Longrightarrow> readQuery b = Inr []"
  by (auto simp: readQuery_def trim_def)

subsection \<open>Failures before and after the headers are sent\<close>

text \<open>
  On a response whose headers are not sent yet, the try block fails before the headers are
  sent exactly when its first phase fails.
\<close>

lemma tryBlock_before_commit:
  assumes "\<not> headersSent (res st)"
  shows "(tryBlock num env cities db req st = (Some e, st') \<and> \<not> headersSent (res st')) \<longleftrightarrow>
         prepare num env cities db req st = (Inl e, st')"
proof
  assume a: "tryBlock num env cities db req st = (Some e, st') \<and> \<not> headersSent (res st')"
  with tryBlock_cases [of num env cities db req st "Some e" st']
  show "prepare num env cities db req st = (Inl e, st')"
    by (auto dest: streamAnswer_fields(2))
next
  assume p: "prepare num env cities db req st = (Inl e, st')"
  then have "res st' = res st" by (rule prepare_res)
  with p assms show "tryBlock num env cities db req st = (Some e, st') \<and> \<not> headersSent (res st')"
    by (simp add: tryBlock_def)
qed

text \<open>
  The failures of the first phase: reading the query, the embedding call, the similarity
  search (thrown, or returned as an error), the creation of the chat session.
\<close>

lemma prepare_failure_causes:
  assumes "prepare num env cities db req st = (Inl e, st')"
  shows "readQuery (body req) = Inl e
       \<or> (\<exists>q. readQuery (body req) = Inr q \<and>
            (embedQuery env q = Inl e
             \<or> (\<exists>v. embedQuery env q = Inr v \<and>
                  (rpc env db v 3 = Inl e
                   \<or> (\<exists>reply. rpc env db v 3 = Inr reply \<and>
                        ((\<exists>rpcError. error reply = Some rpcError \<and>
                            e = Error (''Failed to match documents: '' @ rpcMessage rpcError))
                         \<or> (error reply = None \<and>
                             startChat env
                               (history (finalContext (structuredContext num (searchCity q cities))
                                          (ragContext (data reply)))) = Inl e)))))))"
  using assms
  by (auto simp: prepare_def called_def Let_def split: sum.splits option.splits)

text \<open>
  Claim C1. When the try block fails while the headers are not yet sent, the handler
  answers with status 500 and writes one body: the JSON object whose only property,
  \<open>reply\<close>, is the fixed message of the service. The body is the same whatever the
  failure was, it is not a frame of the event stream, and the response is ended.
\<close>

theorem failure_before_commit:
  assumes "tryBlock num env cities db req st = (Some e, st')" and "\<not> headersSent (res st')"
  shows "statusCode (res (chatHandler num env cities db req st)) = 500
       \<and> written (res (chatHandler num env cities db req st)) =
           written (res st) @
           [''{'' @ [CHR 0x22] @ ''reply'' @ [CHR 0x22] @ '':'' @ [CHR 0x22] @
            ''Aiyoo server ko thoda pani de do '' @
            [CHR 0xF0, CHR 0x9F, CHR 0x98, CHR 0xAD, CHR 0xF0, CHR 0x9F, CHR 0x92, CHR 0xA6] @
            '' brb!'' @ [CHR 0x22] @ ''}'']
       \<and> \<not> isStreamEvent
            (''{'' @ [CHR 0x22] @ ''reply'' @ [CHR 0x22] @ '':'' @ [CHR 0x22] @
             ''Aiyoo server ko thoda pani de do '' @
             [CHR 0xF0, CHR 0x9F, CHR 0x98, CHR 0xAD, CHR 0xF0, CHR 0x9F, CHR 0x92, CHR 0xA6] @
             '' brb!'' @ [CHR 0x22] @ ''}'')
       \<and> writableEnded (res (chatHandler num env cities db req st))"
proof -
  have "res (chatHandler num env cities db req st) =
          json [(''reply'', JString fixedReply)] (status 500 (res st))"
    using assms by (rule handler_catch_before)
  then have "statusCode (res (chatHandler num env cities db req st)) = 500"
    and "written (res (chatHandler num env cities db req st)) = written (res st) @ [errorPayload]"
    and "writableEnded (res (chatHandler num env cities db req st))"
    by (simp_all add: json_fields status_def errorPayload_def)
  then show ?thesis
    using errorPayload_not_event by (simp add: errorPayload_literal)
qed

text \<open>The theorem at a request whose embedding call fails.\<close>

theorem failure_before_commit_witness:
  "tryBlock showNat embedDownEnv [jaipur, udaipur] ''match_documents'' jaipurRequest freshState =
     (Some (Error ''quota exceeded''),
      freshState\<lparr>calls := [EmbedQuery ''3 days in Jaipur under budget'']\<rparr>)
   \<and> \<not> headersSent (res (freshState\<lparr>calls := [EmbedQuery ''3 days in Jaipur under budget'']\<rparr>))
   \<and> statusCode (res (chatHandler showNat embedDownEnv [jaipur, udaipur] ''match_documents''
         jaipurRequest freshState)) = 500
   \<and> written (res (chatHandler showNat embedDownEnv [jaipur, udaipur] ''match_documents''
         jaipurRequest freshState)) =
       [''{'' @ [CHR 0x22] @ ''reply'' @ [CHR 0x22] @ '':'' @ [CHR 0x22] @
        ''Aiyoo server ko thoda pani de do '' @
        [CHR 0xF0, CHR 0x9F, CHR 0x98, CHR 0xAD, CHR 0xF0, CHR 0x9F, CHR 0x92, CHR 0xA6] @
        '' brb!'' @ [CHR 0x22] @ ''}'']"
proof -
  have t: "tryBlock showNat embedDownEnv [jaipur, udaipur] ''match_documents'' jaipurRequest
             freshState =
     (Some (Error ''quota exceeded''),
      freshState\<lparr>calls := [EmbedQuery ''3 days in Jaipur under budget'']\<rparr>)"
    by (simp add: handler_eval demo_eval)
  have h: "\<not> headersSent (res (freshState\<lparr>calls := [EmbedQuery ''3 days in Jaipur under budget'']\<rparr>))"
    by (simp add: demo_eval)
  from failure_before_commit [OF t h] t h show ?thesis by (simp add: demo_eval)
qed

text \<open>
  Claim C2. When the try block fails after the headers are sent, the handler writes one
  more frame and ends the response. The frame is an \<open>error\<close> frame: the text
  \<^verbatim>\<open>data: {"error":\<close>, the message of the failure as a JSON string, a closing brace and
  two newlines. A reader of the frame gets the message of the failure back, and for a
  message without quotes, backslashes and control characters the message stands in the
  frame as it is. What was written before are the text frames of the increments read so
  far. The status code and the headers stay as they were when the failure happened, and
  the status code is the one the response had when the handler was entered.
\<close>

theorem failure_after_commit:
  assumes "tryBlock num env cities db req st = (Some e, st')" and "headersSent (res st')"
  shows "written (res (chatHandler num env cities db req st)) =
           written (res st') @
           [''data: {'' @ [CHR 0x22] @ ''error'' @ [CHR 0x22] @ '':'' @
            quoteJSONString (message e) @ ''}'' @ [CHR 0x0A, CHR 0x0A]]
       \<and> errorMessageOf (last (written (res (chatHandler num env cities db req st)))) =
           Some (message e)
       \<and> ((\<forall>c \<in> set (message e). 32 \<le> (of_char c :: nat) \<and> c \<noteq> CHR 0x22 \<and> c \<noteq> CHR 0x5C) \<longrightarrow>
            last (written (res (chatHandler num env cities db req st))) =
              ''data: {'' @ [CHR 0x22] @ ''error'' @ [CHR 0x22] @ '':'' @ [CHR 0x22] @
              message e @ [CHR 0x22] @ ''}'' @ [CHR 0x0A, CHR 0x0A])
       \<and> (\<exists>texts. written (res st') =
            written (res st) @
            map (\<lambda>t. ''data: {'' @ [CHR 0x22] @ ''text'' @ [CHR 0x22] @ '':'' @
                      quoteJSONString t @ ''}'' @ [CHR 0x0A, CHR 0x0A]) texts)
       \<and> writableEnded (res (chatHandler num env cities db req st))
       \<and> statusCode (res (chatHandler num env cities db req st)) = statusCode (res st')
       \<and> headers (res (chatHandler num env cities db req st)) = headers (res st')
       \<and> statusCode (res st') = statusCode (res st)"
proof -
  let ?final = "res (chatHandler num env cities db req st)"
  have h: "?final = end_response (writeChunk (errorEvent (message e)) (res st'))"
    using assms by (rule handler_catch_after)
  then have w: "written ?final = written (res st') @ [errorEvent (message e)]"
    and f: "writableEnded ?final" "statusCode ?final = statusCode (res st')"
      "headers ?final = headers (res st')"
    by (simp_all add: writeChunk_def end_response_def)
  have l: "last (written ?final) = errorEvent (message e)" using w by simp
  have d: "errorMessageOf (last (written ?final)) = Some (message e)"
    using l by (simp add: errorMessageOf_errorEvent)
  have p: "(\<forall>c \<in> set (message e). 32 \<le> (of_char c :: nat) \<and> c \<noteq> CHR 0x22 \<and> c \<noteq> CHR 0x5C) \<longrightarrow>
            last (written ?final) =
              ''data: {'' @ [CHR 0x22] @ ''error'' @ [CHR 0x22] @ '':'' @ [CHR 0x22] @
              message e @ [CHR 0x22] @ ''}'' @ [CHR 0x0A, CHR 0x0A]"
    using l by (simp add: errorEvent_literal quoteJSONString_plain)
  from tryBlock_cases [OF assms(1)]
  have t: "(\<exists>texts. written (res st') = written (res st) @ map textEvent texts)
        \<and> statusCode (res st') = statusCode (res st)"
  proof (elim disjE exE conjE)
    fix e' assume "res st' = res st"
    then show ?thesis by (auto intro: exI [of _ "[]"])
  next
    fix q seed st1
    assume r: "res st1 = res st" and sa: "streamAnswer env q seed st1 = (Some e, st')"
    from streamAnswer_fields(5) [OF sa] streamAnswer_fields(3) [OF sa] r show ?thesis by simp
  qed
  have tl: "textEvent = (\<lambda>t. ''data: {'' @ [CHR 0x22] @ ''text'' @ [CHR 0x22] @ '':'' @
                      quoteJSONString t @ ''}'' @ [CHR 0x0A, CHR 0x0A])"
    by (rule ext) (simp add: textEvent_literal)
  from t have t': "(\<exists>texts. written (res st') =
            written (res st) @
            map (\<lambda>t. ''data: {'' @ [CHR 0x22] @ ''text'' @ [CHR 0x22] @ '':'' @
                      quoteJSONString t @ ''}'' @ [CHR 0x0A, CHR 0x0A]) texts)"
    and s: "statusCode (res st') = statusCode (res st)"
    by (simp_all add: tl)
  have w': "written ?final = written (res st') @
           [''data: {'' @ [CHR 0x22] @ ''error'' @ [CHR 0x22] @ '':'' @
            quoteJSONString (message e) @ ''}'' @ [CHR 0x0A, CHR 0x0A]]"
    using w by (simp add: errorEvent_literal)
  from w' d p t' f s show ?thesis by blast
qed

text \<open>The theorem at a request whose stream breaks after one increment.\<close>

theorem failure_after_commit_witness:
  "fst (tryBlock showNat streamDownEnv [jaipur, udaipur] ''match_documents'' jaipurRequest
          freshState) = Some (Error ''socket hang up'')
   \<and> headersSent (res (snd (tryBlock showNat streamDownEnv [jaipur, udaipur] ''match_documents''
         jaipurRequest freshState)))
   \<and> written (res (chatHandler showNat streamDownEnv [jaipur, udaipur] ''match_documents''
         jaipurRequest freshState)) =
       [''data: {'' @ [CHR 0x22] @ ''text'' @ [CHR 0x22] @ '':'' @ [CHR 0x22] @ ''Namaste! '' @
          [CHR 0x22] @ ''}'' @ [CHR 0x0A, CHR 0x0A],
        ''data: {'' @ [CHR 0x22] @ ''error'' @ [CHR 0x22] @ '':'' @ [CHR 0x22] @
          ''socket hang up'' @ [CHR 0x22] @ ''}'' @ [CHR 0x0A, CHR 0x0A]]
   \<and> errorMessageOf (last (written (res (chatHandler showNat streamDownEnv [jaipur, udaipur]
         ''match_documents'' jaipurRequest freshState)))) = Some ''socket hang up''
   \<and> writableEnded (res (chatHandler showNat streamDownEnv [jaipur, udaipur] ''match_documents''
         jaipurRequest freshState))
   \<and> statusCode (res (chatHandler showNat streamDownEnv [jaipur, udaipur] ''match_documents''
         jaipurRequest freshState)) = 200"
proof -
  let ?t = "tryBlock showNat streamDownEnv [jaipur, udaipur] ''match_documents'' jaipurRequest
              freshState"
  have f: "fst ?t = Some (Error ''socket hang up'')"
    by (simp add: handler_eval demo_eval)
  have h: "headersSent (res (snd ?t))"
    by (simp add: handler_eval demo_eval)
  have w: "written (res (snd ?t)) =
       [''data: {'' @ [CHR 0x22] @ ''text'' @ [CHR 0x22] @ '':'' @ [CHR 0x22] @ ''Namaste! '' @
          [CHR 0x22] @ ''}'' @ [CHR 0x0A, CHR 0x0A]]"
    by (simp add: handler_eval demo_eval textEvent_def json_eval)
  have q: "quoteJSONString ''socket hang up'' = [CHR 0x22] @ ''socket hang up'' @ [CHR 0x22]"
    by (simp add: quoteJSONString_def quoteChar_def Let_def)
  have s: "statusCode (res freshState) = 200"
    by (simp add: demo_eval)
  have t: "?t = (Some (Error ''socket hang up''), snd ?t)"
    using f by (metis prod.collapse)
  from failure_after_commit [OF t h] f h w q s show ?thesis by clarsimp
qed

text \<open>
  Claim C3. On a response with nothing written yet, what the handler writes has no frame
  after a \<open>done\<close> or an \<open>error\<close> frame, the response is ended, and when a frame of the
  event stream was written at all, the last thing written is a \<open>done\<close> or an \<open>error\<close>
  frame.
\<close>

theorem no_event_after_terminal:
  assumes "written (res st) = []"
  shows "noEventAfterTerminal (written (res (chatHandler num env cities db req st)))
       \<and> writableEnded (res (chatHandler num env cities db req st))
       \<and> ((\<exists>w \<in> set (written (res (chatHandler num env cities db req st))). isStreamEvent w) \<longrightarrow>
            isTerminalEvent (last (written (res (chatHandler num env cities db req st)))))"
proof -
  obtain out st' where tb: "tryBlock num env cities db req st = (out, st')"
    by (cases "tryBlock num env cities db req st")
  show ?thesis
  proof (cases out)
    case None
    with tb have h: "chatHandler num env cities db req st = st'" by (simp add: chatHandler_def)
    from tryBlock_cases [OF tb] None obtain q seed st1 where
      r: "res st1 = res st" and sa: "streamAnswer env q seed st1 = (None, st')" by auto
    from streamAnswer_fields(5) [OF sa] r assms obtain texts where
      w: "written (res st') = map textEvent texts @ [doneEvent]" by auto
    from streamAnswer_fields(6) [OF sa] have "writableEnded (res st')" by simp
    with w h show ?thesis by (simp add: noEventAfterTerminal_texts_then doneEvent_terminal)
  next
    case (Some e)
    show ?thesis
    proof (cases "headersSent (res st')")
      case True
      from tryBlock_cases [OF tb] Some assms obtain texts where
        w: "written (res st') = map textEvent texts"
        by (auto dest: streamAnswer_fields(5))
      from handler_catch_after [OF tb [unfolded Some] True] w show ?thesis
        by (simp add: writeChunk_def end_response_def noEventAfterTerminal_texts_then
            errorEvent_terminal)
    next
      case False
      from handler_catch_before [OF tb [unfolded Some] False] assms
      have "written (res (chatHandler num env cities db req st)) = [errorPayload]"
        and "writableEnded (res (chatHandler num env cities db req st))"
        by (simp_all add: json_fields status_def errorPayload_def)
      then show ?thesis by (simp add: errorPayload_not_terminal errorPayload_not_event)
    qed
  qed
qed

text \<open>The theorem at a request answered in two increments.\<close>

theorem no_event_after_terminal_witness:
  "written (res freshState) = []
   \<and> written (res (chatHandler showNat demoEnv [jaipur, udaipur] ''match_documents''
         jaipurRequest freshState)) =
       [textEvent ''Namaste! '', textEvent ''Jaipur chalein?'', doneEvent]
   \<and> isStreamEvent doneEvent
   \<and> noEventAfterTerminal (written (res (chatHandler showNat demoEnv [jaipur, udaipur]
         ''match_documents'' jaipurRequest freshState)))
   \<and> writableEnded (res (chatHandler showNat demoEnv [jaipur, udaipur] ''match_documents''
         jaipurRequest freshState))
   \<and> isTerminalEvent (last (written (res (chatHandler showNat demoEnv [jaipur, udaipur]
         ''match_documents'' jaipurRequest freshState))))"
proof -
  have e: "written (res freshState) = []" by (simp add: demo_eval)
  have w: "written (res (chatHandler showNat demoEnv [jaipur, udaipur] ''match_documents''
         jaipurRequest freshState)) =
       [textEvent ''Namaste! '', textEvent ''Jaipur chalein?'', doneEvent]"
    by (simp add: handler_eval demo_eval)
  have d: "isStreamEvent doneEvent" by (rule events_are_stream_events)
  from no_event_after_terminal [OF e, where num = showNat and env = demoEnv
      and cities = "[jaipur, udaipur]" and db = "''match_documents''" and req = jaipurRequest]
    e w d show ?thesis by (simp add: textEvent_not_terminal doneEvent_terminal)
qed

subsection \<open>Empty search results and absent queries\<close>

text \<open>
  Claim C9. When the embedding call succeeds and the similarity search returns no error
  and no rows (an empty array, or no array at all), the retrieved context is the empty
  string and the handler goes on: it creates the chat session with the seed built from
  that context, and when the session is created it sends the query to the model, with the
  headers of the event stream sent and the status code left as it was.
\<close>

theorem empty_search_reaches_model:
  assumes "readQuery (body req) = Inr q" and "embedQuery env q = Inr v"
    and "rpc env db v 3 = Inr reply" and "error reply = None"
    and "data reply = None \<or> data reply = Some []"
  shows "ragContext (data reply) = []
       \<and> prefix (calls st @ [EmbedQuery q, Rpc db v 3,
                   StartChat (history (finalContext (structuredContext num (searchCity q cities)) []))])
            (calls (chatHandler num env cities db req st))
       \<and> (startChat env (history (finalContext (structuredContext num (searchCity q cities)) [])) = Inr () \<longrightarrow>
            calls (chatHandler num env cities db req st) =
              calls st @ [EmbedQuery q, Rpc db v 3,
                StartChat (history (finalContext (structuredContext num (searchCity q cities)) [])),
                SendMessageStream (history (finalContext (structuredContext num (searchCity q cities)) [])) q]
            \<and> headersSent (res (chatHandler num env cities db req st))
            \<and> statusCode (res (chatHandler num env cities db req st)) = statusCode (res st)
            \<and> headers (res (chatHandler num env cities db req st)) =
                headers (commitEventStream (res st)))"
proof -
  let ?seed = "history (finalContext (structuredContext num (searchCity q cities)) [])"
  have e: "ragContext (data reply) = []" using assms(5) by (rule ragContext_empty)
  have p: "prepare num env cities db req st =
      (case startChat env ?seed of
         Inl e \<Rightarrow> (Inl e, st\<lparr>calls := calls st @ [EmbedQuery q, Rpc db v 3, StartChat ?seed]\<rparr>)
       | Inr u \<Rightarrow>
           (Inr (q, ?seed), st\<lparr>calls := calls st @ [EmbedQuery q, Rpc db v 3, StartChat ?seed]\<rparr>))"
    using assms(2-4) e by (simp add: prepare_readQuery [OF assms(1)] Let_def)
  have c: "prefix (calls st @ [EmbedQuery q, Rpc db v 3, StartChat ?seed])
            (calls (chatHandler num env cities db req st))"
    by (simp add: handler_calls p split: sum.split)
  have s: "startChat env ?seed = Inr () \<longrightarrow>
            calls (chatHandler num env cities db req st) =
              calls st @ [EmbedQuery q, Rpc db v 3, StartChat ?seed, SendMessageStream ?seed q]
            \<and> headersSent (res (chatHandler num env cities db req st))
            \<and> statusCode (res (chatHandler num env cities db req st)) = statusCode (res st)
            \<and> headers (res (chatHandler num env cities db req st)) =
                headers (commitEventStream (res st))"
  proof
    assume ok: "startChat env ?seed = Inr ()"
    with p have p': "prepare num env cities db req st =
        (Inr (q, ?seed), st\<lparr>calls := calls st @ [EmbedQuery q, Rpc db v 3, StartChat ?seed]\<rparr>)"
      by simp
    from handler_committed [OF p'] show "calls (chatHandler num env cities db req st) =
              calls st @ [EmbedQuery q, Rpc db v 3, StartChat ?seed, SendMessageStream ?seed q]
            \<and> headersSent (res (chatHandler num env cities db req st))
            \<and> statusCode (res (chatHandler num env cities db req st)) = statusCode (res st)
            \<and> headers (res (chatHandler num env cities db req st)) =
                headers (commitEventStream (res st))"
      by (simp add: handler_calls p')
  qed
  from e c s show ?thesis by blast
qed

text \<open>The theorem at a question that names no city, with a search that finds no row.\<close>

theorem empty_search_reaches_model_witness:
  "readQuery (body offTopicRequest) = Inr ''How do I sort a list in Python?''
   \<and> embedQuery noRowsEnv ''How do I sort a list in Python?'' = Inr [1, 2, 3]
   \<and> rpc noRowsEnv ''match_documents'' [1, 2, 3] 3 = Inr \<lparr>data = Some [], error = None\<rparr>
   \<and> searchCity ''How do I sort a list in Python?'' [jaipur, udaipur] = []
   \<and> calls (chatHandler showNat noRowsEnv [jaipur, udaipur] ''match_documents'' offTopicRequest
         freshState) =
       [EmbedQuery ''How do I sort a list in Python?'', Rpc ''match_documents'' [1, 2, 3] 3,
        StartChat (history (finalContext (structuredContext showNat []) [])),
        SendMessageStream (history (finalContext (structuredContext showNat []) []))
          ''How do I sort a list in Python?'']
   \<and> headersSent (res (chatHandler showNat noRowsEnv [jaipur, udaipur] ''match_documents''
         offTopicRequest freshState))
   \<and> statusCode (res (chatHandler showNat noRowsEnv [jaipur, udaipur] ''match_documents''
         offTopicRequest freshState)) = 200"
proof -
  let ?q = "''How do I sort a list in Python?''"
  have a1: "readQuery (body offTopicRequest) = Inr ?q"
    by (simp add: readQuery_def trim_def isSpace_def offTopicRequest_def)
  have a2: "embedQuery noRowsEnv ?q = Inr [1, 2, 3]" by (simp add: demo_eval)
  have a3: "rpc noRowsEnv ''match_documents'' [1, 2, 3] 3 = Inr \<lparr>data = Some [], error = None\<rparr>"
    by (simp add: demo_eval)
  have a4: "error \<lparr>data = Some [], error = None\<rparr> = None" by simp
  have a5: "data \<lparr>data = Some [], error = None\<rparr> = None
            \<or> data \<lparr>data = Some [], error = None\<rparr> = Some []"
    by simp
  have s: "searchCity ?q [jaipur, udaipur] = []"
    by (simp add: search_eval jaipur_def udaipur_def)
  have c: "startChat noRowsEnv (history (finalContext (structuredContext showNat []) [])) = Inr ()"
    by (simp add: demo_eval)
  have z: "statusCode (res freshState) = 200" "calls freshState = []"
    by (simp_all add: demo_eval)
  from empty_search_reaches_model [OF a1 a2 a3 a4 a5, where st = freshState and num = showNat
      and cities = "[jaipur, udaipur]"]
    a1 a2 a3 s c z show ?thesis by simp
qed

text \<open>
  Claim C10. A request whose \<open>query\<close> is absent, \<^verbatim>\<open>null\<close> or the empty string is
  not turned away: its query is the empty string, the embedding call is made on the empty
  string, the similarity search is made on the vector the embedding call returns, and when
  the search and the creation of the chat session succeed the empty string is sent to the
  model, with the headers of the event stream sent and the status code left as it was.
\<close>

theorem absent_query_not_rejected:
  assumes "body req = Body Undefined \<or> body req = Body Null \<or> body req = Body (Str [])"
  shows "readQuery (body req) = Inr []
       \<and> prefix (calls st @ [EmbedQuery []]) (calls (chatHandler num env cities db req st))
       \<and> (embedQuery env [] = Inr v \<longrightarrow>
            prefix (calls st @ [EmbedQuery [], Rpc db v 3])
              (calls (chatHandler num env cities db req st)))
       \<and> (embedQuery env [] = Inr v \<and> rpc env db v 3 = Inr reply \<and> error reply = None \<and>
          startChat env (history (finalContext (structuredContext num (searchCity [] cities))
                                   (ragContext (data reply)))) = Inr () \<longrightarrow>
            calls (chatHandler num env cities db req st) =
              calls st @ [EmbedQuery [], Rpc db v 3,
                StartChat (history (finalContext (structuredContext num (searchCity [] cities))
                                     (ragContext (data reply)))),
                SendMessageStream (history (finalContext (structuredContext num (searchCity [] cities))
                                     (ragContext (data reply)))) []]
            \<and> headersSent (res (chatHandler num env cities db req st))
            \<and> statusCode (res (chatHandler num env cities db req st)) = statusCode (res st))"
proof -
  let ?seed = "history (finalContext (structuredContext num (searchCity [] cities))
                                   (ragContext (data reply)))"
  have rq: "readQuery (body req) = Inr []" using assms by (rule readQuery_absent)
  note p = prepare_readQuery [OF rq, of num env cities db st]
  have c1: "prefix (calls st @ [EmbedQuery []]) (calls (chatHandler num env cities db req st))"
    by (simp add: handler_calls p Let_def split: sum.split option.split)
  have c2: "embedQuery env [] = Inr v \<longrightarrow>
            prefix (calls st @ [EmbedQuery [], Rpc db v 3])
              (calls (chatHandler num env cities db req st))"
    by (simp add: handler_calls p Let_def split: sum.split option.split)
  have c3: "embedQuery env [] = Inr v \<and> rpc env db v 3 = Inr reply \<and> error reply = None \<and>
          startChat env ?seed = Inr () \<longrightarrow>
            calls (chatHandler num env cities db req st) =
              calls st @ [EmbedQuery [], Rpc db v 3, StartChat ?seed, SendMessageStream ?seed []]
            \<and> headersSent (res (chatHandler num env cities db req st))
            \<and> statusCode (res (chatHandler num env cities db req st)) = statusCode (res st)"
  proof
    assume ok: "embedQuery env [] = Inr v \<and> rpc env db v 3 = Inr reply \<and> error reply = None \<and>
          startChat env ?seed = Inr ()"
    with p have p': "prepare num env cities db req st =
        (Inr ([], ?seed), st\<lparr>calls := calls st @ [EmbedQuery [], Rpc db v 3, StartChat ?seed]\<rparr>)"
      by (simp add: Let_def)
    from handler_committed [OF p'] show "calls (chatHandler num env cities db req st) =
              calls st @ [EmbedQuery [], Rpc db v 3, StartChat ?seed, SendMessageStream ?seed []]
            \<and> headersSent (res (chatHandler num env cities db req st))
            \<and> statusCode (res (chatHandler num env cities db req st)) = statusCode (res st)"
      by (simp add: handler_calls p')
  qed
  from rq c1 c2 c3 show ?thesis by blast
qed

text \<open>The theorem at a request without a \<open>query\<close>, with services that all succeed.\<close>

theorem absent_query_not_rejected_witness:
  "readQuery (body absentQueryRequest) = Inr []
   \<and> embedQuery demoEnv [] = Inr [1, 2, 3]
   \<and> calls (chatHandler showNat demoEnv [jaipur, udaipur] ''match_documents'' absentQueryRequest
         freshState) =
       [EmbedQuery [], Rpc ''match_documents'' [1, 2, 3] 3,
        StartChat (history (finalContext (structuredContext showNat (searchCity [] [jaipur, udaipur]))
                     (ragContext (Some [snippetA, snippetB])))),
        SendMessageStream (history (finalContext (structuredContext showNat (searchCity [] [jaipur, udaipur]))
                     (ragContext (Some [snippetA, snippetB])))) []]
   \<and> statusCode (res (chatHandler showNat demoEnv [jaipur, udaipur] ''match_documents''
         absentQueryRequest freshState)) = 200"
proof -
  have a: "body absentQueryRequest = Body Undefined \<or> body absentQueryRequest = Body Null
           \<or> body absentQueryRequest = Body (Str [])"
    by (simp add: absentQueryRequest_def)
  have e: "embedQuery demoEnv [] = Inr [1, 2, 3]" by (simp add: demo_eval)
  have r: "rpc demoEnv ''match_documents'' [1, 2, 3] 3 =
             Inr \<lparr>data = Some [snippetA, snippetB], error = None\<rparr>"
    by (simp add: demo_eval)
  have c: "startChat demoEnv
             (history (finalContext (structuredContext showNat (searchCity [] [jaipur, udaipur]))
                (ragContext (data \<lparr>data = Some [snippetA, snippetB], error = None\<rparr>)))) = Inr ()"
    by (simp add: demo_eval)
  have z: "statusCode (res freshState) = 200" "calls freshState = []"
    by (simp_all add: demo_eval)
  from absent_query_not_rejected [OF a, where st = freshState and num = showNat and env = demoEnv
      and cities = "[jaipur, udaipur]" and v = "[1, 2, 3]" and db = "''match_documents''"
      and reply = "\<lparr>data = Some [snippetA, snippetB], error = None\<rparr>"]
    e r c z show ?thesis by simp
qed

end
